theory Spec2Isabelle
  imports Main "HOL-Library.Word"
begin

section \<open>Bytes, values and errors\<close>

type_synonym byte = "8 word"

text \<open>The error kinds of the codec. The TypeScript throws plain \<open>Error\<close> objects;
  they are told apart here by the condition that raises them.\<close>

datatype error =
    StructuralError
  | WidthOverflowError
  | OwnershipError
  | UninitializedError
  | UnsupportedOperationError

text \<open>Values that flow through the layouts: a JavaScript number, a \<open>NumberU64\<close>
  (a big integer object), a \<open>Buffer\<close>, and an object literal with its properties in
  the order they are written.\<close>

datatype val =
    Num int
  | U64 int
  | Buf "byte list"
  | Obj "(string \<times> val) list"

definition ebind :: "error + 'a \<Rightarrow> ('a \<Rightarrow> error + 'b) \<Rightarrow> error + 'b" where
  "ebind m f = (case m of Inl e \<Rightarrow> Inl e | Inr x \<Rightarrow> f x)"

text \<open>Little-endian bytes of an integer, lowest byte first, and the value read back.\<close>

fun le_bytes :: "nat \<Rightarrow> int \<Rightarrow> byte list" where
  "le_bytes 0 n = []"
| "le_bytes (Suc k) n = word_of_int (n mod 256) # le_bytes k (n div 256)"

fun le_value :: "byte list \<Rightarrow> int" where
  "le_value [] = 0"
| "le_value (b # bs) = uint b + 256 * le_value bs"

definition Buffer_alloc :: "nat \<Rightarrow> byte list" where
  "Buffer_alloc n = replicate n 0"

definition slice :: "byte list \<Rightarrow> nat \<Rightarrow> nat \<Rightarrow> byte list" where
  "slice b from until = take (until - from) (drop from b)"

section \<open>The primitive layout library\<close>

text \<open>The layouts of the \<open>buffer-layout\<close> package that the client uses:
  \<open>u8\<close> and \<open>u32\<close> are \<open>UInt 1\<close> and \<open>UInt 4\<close>, \<open>nu64\<close> is \<open>NearUInt64\<close>,
  \<open>ns64\<close> is \<open>NearInt64\<close>, \<open>blob n\<close> is \<open>Blob n\<close> and \<open>struct\<close> is
  \<open>Structure\<close> with its named fields in declaration order.\<close>

datatype layout =
    UInt nat
  | NearUInt64
  | NearInt64
  | Blob nat
  | Structure "(string \<times> layout) list"

fun span :: "layout \<Rightarrow> nat"
  and fields_span :: "(string \<times> layout) list \<Rightarrow> nat" where
  "span (UInt n) = n"
| "span NearUInt64 = 8"
| "span NearInt64 = 8"
| "span (Blob n) = n"
| "span (Structure fs) = fields_span fs"
| "fields_span [] = 0"
| "fields_span (f # fs) = span (snd f) + fields_span fs"

definition fits_unsigned :: "nat \<Rightarrow> int \<Rightarrow> bool" where
  "fits_unsigned bytes v = (0 \<le> v \<and> v < 256 ^ bytes)"

definition fits_signed64 :: "int \<Rightarrow> bool" where
  "fits_signed64 v = (- (2 ^ 63) \<le> v \<and> v < 2 ^ 63)"

text \<open>Modelled from the spec: the encoders of the primitive layouts, which live in the
  \<open>buffer-layout\<close> package and not in the repository. An integer field writes its value
  little-endian in its width and fails with \<open>WidthOverflowError\<close> when the value does
  not fit; a 64-bit field is handed either a number or the eight bytes of a
  \<open>NumberU64\<close>; a blob or a nested composite handed a buffer takes exactly its span of
  bytes. A composite writes its fields in declaration order with nothing between them;
  a field whose property the source object lacks is left as the zero bytes of the freshly
  allocated buffer. Numbers are exact integers here; JavaScript numbers agree with that
  below \<open>2 ^ 53\<close>.\<close>

fun encode_bytes :: "layout \<Rightarrow> val \<Rightarrow> error + byte list"
  and encode_fields :: "(string \<times> layout) list \<Rightarrow> (string \<times> val) list \<Rightarrow> error + byte list" where
  "encode_bytes (UInt n) (Num v) =
     (if fits_unsigned n v then Inr (le_bytes n v) else Inl WidthOverflowError)"
| "encode_bytes (UInt n) (U64 v) =
     (if fits_unsigned n v then Inr (le_bytes n v) else Inl WidthOverflowError)"
| "encode_bytes (UInt n) (Buf b) = Inl StructuralError"
| "encode_bytes (UInt n) (Obj kvs) = Inl StructuralError"
| "encode_bytes NearUInt64 (Num v) =
     (if fits_unsigned 8 v then Inr (le_bytes 8 v) else Inl WidthOverflowError)"
| "encode_bytes NearUInt64 (U64 v) =
     (if fits_unsigned 8 v then Inr (le_bytes 8 v) else Inl WidthOverflowError)"
| "encode_bytes NearUInt64 (Buf b) =
     (if length b = 8 then Inr b else Inl StructuralError)"
| "encode_bytes NearUInt64 (Obj kvs) = Inl StructuralError"
| "encode_bytes NearInt64 (Num v) =
     (if fits_signed64 v then Inr (le_bytes 8 (v mod 2 ^ 64)) else Inl WidthOverflowError)"
| "encode_bytes NearInt64 (U64 v) =
     (if fits_signed64 v then Inr (le_bytes 8 (v mod 2 ^ 64)) else Inl WidthOverflowError)"
| "encode_bytes NearInt64 (Buf b) =
     (if length b = 8 then Inr b else Inl StructuralError)"
| "encode_bytes NearInt64 (Obj kvs) = Inl StructuralError"
| "encode_bytes (Blob n) (Buf b) =
     (if length b = n then Inr b else Inl StructuralError)"
| "encode_bytes (Blob n) (Num v) = Inl StructuralError"
| "encode_bytes (Blob n) (U64 v) = Inl StructuralError"
| "encode_bytes (Blob n) (Obj kvs) = Inl StructuralError"
| "encode_bytes (Structure fs) (Obj kvs) = encode_fields fs kvs"
| "encode_bytes (Structure fs) (Buf b) =
     (if length b = fields_span fs then Inr b else Inl StructuralError)"
| "encode_bytes (Structure fs) (Num v) = Inl StructuralError"
| "encode_bytes (Structure fs) (U64 v) = Inl StructuralError"
| "encode_fields [] kvs = Inr []"
| "encode_fields (f # fs) kvs =
     ebind (case map_of kvs (fst f) of
              None \<Rightarrow> Inr (replicate (span (snd f)) 0)
            | Some v \<Rightarrow> encode_bytes (snd f) v)
       (\<lambda>bs. ebind (encode_fields fs kvs) (\<lambda>rest. Inr (bs @ rest)))"

text \<open>\<open>layout.encode(src, b)\<close>: write the encoding of \<open>src\<close> at the start of the buffer
  \<open>b\<close> and return the buffer with the number of bytes written.\<close>

definition layout_encode :: "layout \<Rightarrow> val \<Rightarrow> byte list \<Rightarrow> error + (byte list \<times> nat)" where
  "layout_encode l src b =
     ebind (encode_bytes l src)
       (\<lambda>bs. if length b < length bs then Inl StructuralError
             else Inr (bs @ drop (length bs) b, length bs))"

text \<open>Modelled from the spec: the decoders of the primitive layouts (again the
  \<open>buffer-layout\<close> package). A layout reads its span of bytes from the front of the
  source and fails with \<open>StructuralError\<close> when the source is shorter; an unsigned field
  decodes to a plain number, a blob to a buffer, a composite to an object with its fields
  in declaration order. Bytes beyond the span are ignored.\<close>

fun decode :: "layout \<Rightarrow> byte list \<Rightarrow> error + val"
  and decode_fields :: "(string \<times> layout) list \<Rightarrow> byte list \<Rightarrow> error + (string \<times> val) list" where
  "decode (UInt n) b =
     (if length b < n then Inl StructuralError else Inr (Num (le_value (take n b))))"
| "decode NearUInt64 b =
     (if length b < 8 then Inl StructuralError else Inr (Num (le_value (take 8 b))))"
| "decode NearInt64 b =
     (if length b < 8 then Inl StructuralError
      else let v = le_value (take 8 b) in Inr (Num (if v < 2 ^ 63 then v else v - 2 ^ 64)))"
| "decode (Blob n) b =
     (if length b < n then Inl StructuralError else Inr (Buf (take n b)))"
| "decode (Structure fs) b = ebind (decode_fields fs b) (\<lambda>kvs. Inr (Obj kvs))"
| "decode_fields [] b = Inr []"
| "decode_fields (f # fs) b =
     ebind (decode (snd f) b)
       (\<lambda>v. ebind (decode_fields fs (drop (span (snd f)) b))
          (\<lambda>kvs. Inr ((fst f, v) # kvs)))"

section \<open>Public keys, big integers and the composite layouts\<close>

text \<open>A public key is written in the source by its base-58 text; a key pair carries
  its public key.\<close>

datatype PublicKey = PublicKey string

record Keypair =
  publicKey :: PublicKey

definition SYSVAR_CLOCK_PUBKEY :: PublicKey where
  "SYSVAR_CLOCK_PUBKEY = PublicKey ''SysvarC1ock11111111111111111111111111111111''"

definition TOKEN_PROGRAM_ID :: PublicKey where
  "TOKEN_PROGRAM_ID = PublicKey ''TokenkegQfeZyiNwAJbNbGKPFXCWuBvf9Ss623VQ5DA''"

text \<open>Modelled from the spec: \<open>NumberU64.toBuffer\<close> of \<open>util/u64.ts\<close>, which is not
  among the sources. A \<open>NumberU64\<close> is an unbounded big integer; its buffer is the eight
  little-endian bytes of an unsigned 64-bit value, and a value that is negative or wider
  than 64 bits fails with \<open>WidthOverflowError\<close>.\<close>

definition NumberU64_toBuffer :: "int \<Rightarrow> error + byte list" where
  "NumberU64_toBuffer n =
     (if fits_unsigned 8 n then Inr (le_bytes 8 n) else Inl WidthOverflowError)"

text \<open>Modelled from the spec: \<open>Uint64Layout\<close>, which \<open>instructions.ts\<close> imports from a
  version of \<open>layout.ts\<close> that is not among the sources: an unsigned 64-bit field of
  eight bytes.\<close>

definition Uint64Layout :: "string \<Rightarrow> string \<times> layout" where
  "Uint64Layout property = (property, NearUInt64)"

definition u8 :: "string \<Rightarrow> string \<times> layout" where
  "u8 property = (property, UInt 1)"

definition u32 :: "string \<Rightarrow> string \<times> layout" where
  "u32 property = (property, UInt 4)"

definition nu64 :: "string \<Rightarrow> string \<times> layout" where
  "nu64 property = (property, NearUInt64)"

definition ns64 :: "string \<Rightarrow> string \<times> layout" where
  "ns64 property = (property, NearInt64)"

definition PublicKeyLayout :: "string \<Rightarrow> string \<times> layout" where
  "PublicKeyLayout property = (property, Blob 32)"

definition U256Layout :: "string \<Rightarrow> string \<times> layout" where
  "U256Layout property = (property, Blob 32)"

definition FixedU256Layout :: "string \<Rightarrow> string \<times> layout" where
  "FixedU256Layout property =
     (property, Structure [U256Layout ''inner'', U256Layout ''basePoint''])"

definition FixedU64Layout :: "string \<Rightarrow> string \<times> layout" where
  "FixedU64Layout property =
     (property, Structure [nu64 ''inner'', nu64 ''basePoint''])"

definition FeesLayout :: "string \<Rightarrow> string \<times> layout" where
  "FeesLayout property =
     (property, Structure
       [nu64 ''adminTradeFeeNumerator'',
        nu64 ''adminTradeFeeDenominator'',
        nu64 ''adminWithdrawFeeNumerator'',
        nu64 ''adminWithdrawFeeDenominator'',
        nu64 ''tradeFeeNumerator'',
        nu64 ''tradeFeeDenominator'',
        nu64 ''withdrawFeeNumerator'',
        nu64 ''withdrawFeeDenominator''])"

definition RewardsLayout :: "string \<Rightarrow> string \<times> layout" where
  "RewardsLayout property =
     (property, Structure
       [nu64 ''tradeRewardNumerator'',
        nu64 ''tradeRewardDenominator'',
        nu64 ''tradeRewardCap''])"

definition OracleLayout :: "string \<Rightarrow> string \<times> layout" where
  "OracleLayout property =
     (property, Structure
       [u32 ''period'',
        PublicKeyLayout ''token0'',
        PublicKeyLayout ''token1'',
        U256Layout ''price0Cumulative'',
        U256Layout ''price1Cumulative'',
        nu64 ''blockTimestamp'',
        U256Layout ''price0Average'',
        U256Layout ''price1Average''])"

definition ConfigInfoLayout :: layout where
  "ConfigInfoLayout = Structure
     [u8 ''isInitialized'',
      u8 ''isPaused'',
      nu64 ''ampFactor'',
      ns64 ''futureAdminDeadline'',
      PublicKeyLayout ''futureAdminKey'',
      PublicKeyLayout ''adminKey'',
      PublicKeyLayout ''deltafiMint'',
      FeesLayout ''fees'',
      RewardsLayout ''rewards'']"

text \<open>The stable-swap state of \<open>layout.ts\<close> (256-bit fixed-point fields, with the
  oracle).\<close>

definition StableSwapLayout :: layout where
  "StableSwapLayout = Structure
     [u8 ''isInitialized'',
      u8 ''isPaused'',
      u8 ''nonce'',
      nu64 ''initialAmpFactor'',
      nu64 ''targetAmpFactor'',
      ns64 ''startRampTs'',
      ns64 ''stopRampTs'',
      ns64 ''futureAdminDeadline'',
      PublicKeyLayout ''futureAdminAccount'',
      PublicKeyLayout ''adminAccount'',
      PublicKeyLayout ''tokenAccountA'',
      PublicKeyLayout ''tokenAccountB'',
      PublicKeyLayout ''tokenPool'',
      PublicKeyLayout ''mintA'',
      PublicKeyLayout ''mintB'',
      PublicKeyLayout ''deltafiTokenAccount'',
      PublicKeyLayout ''deltafiTokenMint'',
      PublicKeyLayout ''adminFeeAccountA'',
      PublicKeyLayout ''adminFeeAccountB'',
      FeesLayout ''fees'',
      OracleLayout ''oracle'',
      RewardsLayout ''rewards'',
      FixedU256Layout ''k'',
      FixedU256Layout ''l'',
      u8 ''r'',
      FixedU256Layout ''baseTarget'',
      FixedU256Layout ''quoteTarget'',
      FixedU256Layout ''baseReserve'',
      FixedU256Layout ''quoteReserve'',
      nu64 ''isOpenTwap'',
      nu64 ''blockTimestamp'',
      FixedU256Layout ''basePriceCumulative'']"

text \<open>The farm state as the source last declared it; the declaration is commented out
  there, so the farm loader below takes its layout as an argument.\<close>

definition FarmLayout :: layout where
  "FarmLayout = Structure
     [u8 ''isInitialized'',
      u8 ''isPaused'',
      u8 ''nonce'',
      nu64 ''initialAmpFactor'',
      nu64 ''targetAmpFactor'',
      ns64 ''startRampTs'',
      ns64 ''stopRampTs'',
      ns64 ''futureAdminDeadline'',
      PublicKeyLayout ''futureAdminAccount'',
      PublicKeyLayout ''adminAccount'',
      PublicKeyLayout ''tokenAccountA'',
      PublicKeyLayout ''tokenAccountB'',
      PublicKeyLayout ''tokenPool'',
      PublicKeyLayout ''mintA'',
      PublicKeyLayout ''mintB'',
      PublicKeyLayout ''adminFeeAccountA'',
      PublicKeyLayout ''adminFeeAccountB'',
      nu64 ''adminTradeFeeNumerator'',
      nu64 ''adminTradeFeeDenominator'',
      nu64 ''adminWithdrawFeeNumerator'',
      nu64 ''adminWithdrawFeeDenominator'',
      nu64 ''tradeFeeNumerator'',
      nu64 ''tradeFeeDenominator'',
      nu64 ''withdrawFeeNumerator'',
      nu64 ''withdrawFeeDenominator'']"

subsection \<open>Struct, Fees and Rewards\<close>

text \<open>\<open>Struct.toBuffer\<close>: allocate the layout's span, encode the data into it and
  cut the buffer at the encoded length.\<close>

definition Struct_toBuffer :: "val \<Rightarrow> layout \<Rightarrow> error + byte list" where
  "Struct_toBuffer data layout =
     (let buf = Buffer_alloc (span layout)
      in ebind (layout_encode layout data buf)
           (\<lambda>(buf', len). Inr (slice buf' 0 len)))"

record IFees =
  adminTradeFeeNumerator :: int
  adminTradeFeeDenominator :: int
  adminWithdrawFeeNumerator :: int
  adminWithdrawFeeDenominator :: int
  tradeFeeNumerator :: int
  tradeFeeDenominator :: int
  withdrawFeeNumerator :: int
  withdrawFeeDenominator :: int

record IRewards =
  tradeRewardNumerator :: int
  tradeRewardDenominator :: int
  tradeRewardCap :: int

text \<open>The object behind an \<open>IFees\<close> or \<open>IRewards\<close> value: every field is a
  \<open>NumberU64\<close>.\<close>

definition IFees_object :: "IFees \<Rightarrow> val" where
  "IFees_object f = Obj
     [(''adminTradeFeeNumerator'', U64 (adminTradeFeeNumerator f)),
      (''adminTradeFeeDenominator'', U64 (adminTradeFeeDenominator f)),
      (''adminWithdrawFeeNumerator'', U64 (adminWithdrawFeeNumerator f)),
      (''adminWithdrawFeeDenominator'', U64 (adminWithdrawFeeDenominator f)),
      (''tradeFeeNumerator'', U64 (tradeFeeNumerator f)),
      (''tradeFeeDenominator'', U64 (tradeFeeDenominator f)),
      (''withdrawFeeNumerator'', U64 (withdrawFeeNumerator f)),
      (''withdrawFeeDenominator'', U64 (withdrawFeeDenominator f))]"

definition IRewards_object :: "IRewards \<Rightarrow> val" where
  "IRewards_object r = Obj
     [(''tradeRewardNumerator'', U64 (tradeRewardNumerator r)),
      (''tradeRewardDenominator'', U64 (tradeRewardDenominator r)),
      (''tradeRewardCap'', U64 (tradeRewardCap r))]"

text \<open>\<open>new Fees(fees).toBuffer()\<close> and \<open>Fees.fromBuffer(buf)\<close>, and the same for
  \<open>Rewards\<close>.\<close>

definition Fees_toBuffer :: "IFees \<Rightarrow> error + byte list" where
  "Fees_toBuffer fees = Struct_toBuffer (IFees_object fees) (snd (FeesLayout ''fees''))"

definition Fees_fromBuffer :: "byte list \<Rightarrow> error + val" where
  "Fees_fromBuffer buf = (let layout = snd (FeesLayout ''fees'') in decode layout buf)"

definition Rewards_toBuffer :: "IRewards \<Rightarrow> error + byte list" where
  "Rewards_toBuffer rewards =
     Struct_toBuffer (IRewards_object rewards) (snd (RewardsLayout ''rewards''))"

definition Rewards_fromBuffer :: "byte list \<Rightarrow> error + val" where
  "Rewards_fromBuffer buf = (let layout = snd (RewardsLayout ''rewards'') in decode layout buf)"

definition DEFAULT_FEE_NUMERATOR :: int where
  "DEFAULT_FEE_NUMERATOR = 0"

definition DEFAULT_FEE_DENOMINATOR :: int where
  "DEFAULT_FEE_DENOMINATOR = 1000"

definition DEFAULT_FEES :: IFees where
  "DEFAULT_FEES =
     \<lparr>adminTradeFeeNumerator = DEFAULT_FEE_NUMERATOR,
      adminTradeFeeDenominator = DEFAULT_FEE_DENOMINATOR,
      adminWithdrawFeeNumerator = DEFAULT_FEE_NUMERATOR,
      adminWithdrawFeeDenominator = DEFAULT_FEE_DENOMINATOR,
      tradeFeeNumerator = 1,
      tradeFeeDenominator = 4,
      withdrawFeeNumerator = DEFAULT_FEE_NUMERATOR,
      withdrawFeeDenominator = DEFAULT_FEE_DENOMINATOR\<rparr>"

definition DEFAULT_REWARDS :: IRewards where
  "DEFAULT_REWARDS =
     \<lparr>tradeRewardNumerator = 1, tradeRewardDenominator = 1000, tradeRewardCap = 100\<rparr>"

section \<open>Instruction encoders\<close>

record AccountMeta =
  pubkey :: PublicKey
  isSigner :: bool
  isWritable :: bool

record TransactionInstruction =
  ti_keys :: "AccountMeta list"
  ti_programId :: PublicKey
  ti_data :: "byte list"

subsection \<open>The admin family (\<open>instructions/admin.ts\<close>)\<close>

text \<open>\<open>enum AdminInstruction { Initialize = 99, RampA, ... }\<close>: the members count up
  from 99.\<close>

datatype AdminInstruction =
    Admin_Initialize
  | RampA
  | StopRamp
  | Pause
  | Unpause
  | SetFeeAccount
  | ApplyNewAdmin
  | CommitNewAdmin
  | SetNewFees
  | SetNewRewards

fun AdminInstruction_code :: "AdminInstruction \<Rightarrow> int" where
  "AdminInstruction_code Admin_Initialize = 99"
| "AdminInstruction_code RampA = 100"
| "AdminInstruction_code StopRamp = 101"
| "AdminInstruction_code Pause = 102"
| "AdminInstruction_code Unpause = 103"
| "AdminInstruction_code SetFeeAccount = 104"
| "AdminInstruction_code ApplyNewAdmin = 105"
| "AdminInstruction_code CommitNewAdmin = 106"
| "AdminInstruction_code SetNewFees = 107"
| "AdminInstruction_code SetNewRewards = 108"

definition createAdminInitializeInstruction ::
  "PublicKey \<Rightarrow> PublicKey \<Rightarrow> PublicKey \<Rightarrow> int \<Rightarrow> IFees \<Rightarrow> IRewards \<Rightarrow> PublicKey \<Rightarrow> error + TransactionInstruction" where
  "createAdminInitializeInstruction config adminKey deltafiMint ampFactor fees rewards programId =
     (let keys =
            [\<lparr>pubkey = config, isSigner = True, isWritable = False\<rparr>,
             \<lparr>pubkey = adminKey, isSigner = True, isWritable = False\<rparr>,
             \<lparr>pubkey = deltafiMint, isSigner = False, isWritable = False\<rparr>];
          dataLayout = Structure
            [u8 ''instruction'',
             nu64 ''ampFactor'',
             FeesLayout ''fees'',
             RewardsLayout ''rewards''];
          data = Buffer_alloc (span dataLayout)
      in ebind (NumberU64_toBuffer ampFactor) (\<lambda>b1.
         ebind (Fees_toBuffer fees) (\<lambda>b2.
         ebind (Rewards_toBuffer rewards) (\<lambda>b3.
         ebind (layout_encode dataLayout
                  (Obj [(''instruction'', Num (AdminInstruction_code Admin_Initialize)),
                        (''ampFactor'', Buf b1),
                        (''fees'', Buf b2),
                        (''rewards'', Buf b3)])
                  data)
           (\<lambda>(data, encodeLength).
              Inr \<lparr>ti_keys = keys, ti_programId = programId, ti_data = data\<rparr>)))))"

definition createRampAInstruction ::
  "PublicKey \<Rightarrow> PublicKey \<Rightarrow> PublicKey \<Rightarrow> int \<Rightarrow> int \<Rightarrow> PublicKey \<Rightarrow> error + TransactionInstruction" where
  "createRampAInstruction tokenSwap authority adminAccount targetAmp stopRampTimestamp programId =
     (let keys =
            [\<lparr>pubkey = tokenSwap, isSigner = True, isWritable = False\<rparr>,
             \<lparr>pubkey = authority, isSigner = False, isWritable = False\<rparr>,
             \<lparr>pubkey = adminAccount, isSigner = True, isWritable = False\<rparr>,
             \<lparr>pubkey = SYSVAR_CLOCK_PUBKEY, isSigner = False, isWritable = False\<rparr>];
          dataLayout = Structure
            [u8 ''instruction'',
             nu64 ''targetAmp'',
             nu64 ''stopRampTimestamp''];
          data = Buffer_alloc (span dataLayout)
      in ebind (NumberU64_toBuffer targetAmp) (\<lambda>b1.
         ebind (NumberU64_toBuffer stopRampTimestamp) (\<lambda>b2.
         ebind (layout_encode dataLayout
                  (Obj [(''instruction'', Num (AdminInstruction_code RampA)),
                        (''targetAmp'', Buf b1),
                        (''stopRampTimestamp'', Buf b2)])
                  data)
           (\<lambda>(data, encodeLength).
              Inr \<lparr>ti_keys = keys, ti_programId = programId, ti_data = slice data 0 encodeLength\<rparr>))))"

definition createStopRampInstruction ::
  "Keypair \<Rightarrow> PublicKey \<Rightarrow> PublicKey \<Rightarrow> PublicKey \<Rightarrow> error + TransactionInstruction" where
  "createStopRampInstruction tokenSwapAccount authority adminAccount programId =
     (let keys =
            [\<lparr>pubkey = publicKey tokenSwapAccount, isSigner = True, isWritable = False\<rparr>,
             \<lparr>pubkey = authority, isSigner = False, isWritable = False\<rparr>,
             \<lparr>pubkey = adminAccount, isSigner = True, isWritable = False\<rparr>,
             \<lparr>pubkey = SYSVAR_CLOCK_PUBKEY, isSigner = False, isWritable = False\<rparr>];
          dataLayout = Structure
            [u8 ''instruction''];
          data = Buffer_alloc (span dataLayout)
      in ebind (layout_encode dataLayout
                  (Obj [(''instruction'', Num (AdminInstruction_code StopRamp))])
                  data)
           (\<lambda>(data, encodeLength).
              Inr \<lparr>ti_keys = keys, ti_programId = programId, ti_data = slice data 0 encodeLength\<rparr>))"

definition createPauseInstruction ::
  "Keypair \<Rightarrow> PublicKey \<Rightarrow> PublicKey \<Rightarrow> PublicKey \<Rightarrow> error + TransactionInstruction" where
  "createPauseInstruction tokenSwapAccount authority adminAccount programId =
     (let keys =
            [\<lparr>pubkey = publicKey tokenSwapAccount, isSigner = True, isWritable = False\<rparr>,
             \<lparr>pubkey = authority, isSigner = False, isWritable = False\<rparr>,
             \<lparr>pubkey = adminAccount, isSigner = True, isWritable = False\<rparr>];
          dataLayout = Structure
            [u8 ''instruction''];
          data = Buffer_alloc (span dataLayout)
      in ebind (layout_encode dataLayout
                  (Obj [(''instruction'', Num (AdminInstruction_code Pause))])
                  data)
           (\<lambda>(data, encodeLength).
              Inr \<lparr>ti_keys = keys, ti_programId = programId, ti_data = slice data 0 encodeLength\<rparr>))"

definition createUnpauseInstruction ::
  "Keypair \<Rightarrow> PublicKey \<Rightarrow> PublicKey \<Rightarrow> PublicKey \<Rightarrow> error + TransactionInstruction" where
  "createUnpauseInstruction tokenSwapAccount authority adminAccount programId =
     (let keys =
            [\<lparr>pubkey = publicKey tokenSwapAccount, isSigner = True, isWritable = False\<rparr>,
             \<lparr>pubkey = authority, isSigner = False, isWritable = False\<rparr>,
             \<lparr>pubkey = adminAccount, isSigner = True, isWritable = False\<rparr>];
          dataLayout = Structure
            [u8 ''instruction''];
          data = Buffer_alloc (span dataLayout)
      in ebind (layout_encode dataLayout
                  (Obj [(''instruction'', Num (AdminInstruction_code Unpause))])
                  data)
           (\<lambda>(data, encodeLength).
              Inr \<lparr>ti_keys = keys, ti_programId = programId, ti_data = slice data 0 encodeLength\<rparr>))"

definition createSetFeeAccountInstruction ::
  "Keypair \<Rightarrow> PublicKey \<Rightarrow> PublicKey \<Rightarrow> PublicKey \<Rightarrow> PublicKey \<Rightarrow> error + TransactionInstruction" where
  "createSetFeeAccountInstruction tokenSwapAccount authority adminAccount newFeeAccount programId =
     (let keys =
            [\<lparr>pubkey = publicKey tokenSwapAccount, isSigner = True, isWritable = False\<rparr>,
             \<lparr>pubkey = authority, isSigner = False, isWritable = False\<rparr>,
             \<lparr>pubkey = adminAccount, isSigner = True, isWritable = False\<rparr>,
             \<lparr>pubkey = newFeeAccount, isSigner = False, isWritable = False\<rparr>];
          dataLayout = Structure
            [u8 ''instruction''];
          data = Buffer_alloc (span dataLayout)
      in ebind (layout_encode dataLayout
                  (Obj [(''instruction'', Num (AdminInstruction_code SetFeeAccount))])
                  data)
           (\<lambda>(data, encodeLength).
              Inr \<lparr>ti_keys = keys, ti_programId = programId, ti_data = slice data 0 encodeLength\<rparr>))"

definition createApplyNewAdminInstruction ::
  "Keypair \<Rightarrow> PublicKey \<Rightarrow> PublicKey \<Rightarrow> PublicKey \<Rightarrow> error + TransactionInstruction" where
  "createApplyNewAdminInstruction tokenSwapAccount authority adminAccount programId =
     (let keys =
            [\<lparr>pubkey = publicKey tokenSwapAccount, isSigner = True, isWritable = False\<rparr>,
             \<lparr>pubkey = authority, isSigner = False, isWritable = False\<rparr>,
             \<lparr>pubkey = adminAccount, isSigner = True, isWritable = False\<rparr>,
             \<lparr>pubkey = SYSVAR_CLOCK_PUBKEY, isSigner = False, isWritable = False\<rparr>];
          dataLayout = Structure
            [u8 ''instruction''];
          data = Buffer_alloc (span dataLayout)
      in ebind (layout_encode dataLayout
                  (Obj [(''instruction'', Num (AdminInstruction_code ApplyNewAdmin))])
                  data)
           (\<lambda>(data, encodeLength).
              Inr \<lparr>ti_keys = keys, ti_programId = programId, ti_data = slice data 0 encodeLength\<rparr>))"

definition createCommitNewAdminInstruction ::
  "Keypair \<Rightarrow> PublicKey \<Rightarrow> PublicKey \<Rightarrow> PublicKey \<Rightarrow> PublicKey \<Rightarrow> error + TransactionInstruction" where
  "createCommitNewAdminInstruction tokenSwapAccount authority adminAccount newAdminAccount programId =
     (let keys =
            [\<lparr>pubkey = publicKey tokenSwapAccount, isSigner = True, isWritable = False\<rparr>,
             \<lparr>pubkey = authority, isSigner = False, isWritable = False\<rparr>,
             \<lparr>pubkey = adminAccount, isSigner = True, isWritable = False\<rparr>,
             \<lparr>pubkey = newAdminAccount, isSigner = False, isWritable = False\<rparr>,
             \<lparr>pubkey = SYSVAR_CLOCK_PUBKEY, isSigner = False, isWritable = False\<rparr>];
          dataLayout = Structure
            [u8 ''instruction''];
          data = Buffer_alloc (span dataLayout)
      in ebind (layout_encode dataLayout
                  (Obj [(''instruction'', Num (AdminInstruction_code CommitNewAdmin))])
                  data)
           (\<lambda>(data, encodeLength).
              Inr \<lparr>ti_keys = keys, ti_programId = programId, ti_data = slice data 0 encodeLength\<rparr>))"

definition createSetNewFeesInstruction ::
  "Keypair \<Rightarrow> PublicKey \<Rightarrow> PublicKey \<Rightarrow> IFees \<Rightarrow> PublicKey \<Rightarrow> error + TransactionInstruction" where
  "createSetNewFeesInstruction tokenSwapAccount authority adminAccount newFees programId =
     (let keys =
            [\<lparr>pubkey = publicKey tokenSwapAccount, isSigner = True, isWritable = False\<rparr>,
             \<lparr>pubkey = authority, isSigner = False, isWritable = False\<rparr>,
             \<lparr>pubkey = adminAccount, isSigner = True, isWritable = False\<rparr>];
          dataLayout = Structure
            [u8 ''instruction'',
             FeesLayout ''newFees''];
          data = Buffer_alloc (span dataLayout)
      in ebind (Fees_toBuffer newFees) (\<lambda>b1.
         ebind (layout_encode dataLayout
                  (Obj [(''instruction'', Num (AdminInstruction_code CommitNewAdmin)),
                        (''newFees'', Buf b1)])
                  data)
           (\<lambda>(data, encodeLength).
              Inr \<lparr>ti_keys = keys, ti_programId = programId, ti_data = slice data 0 encodeLength\<rparr>)))"

definition createSetNewRewardsInstruction ::
  "Keypair \<Rightarrow> PublicKey \<Rightarrow> PublicKey \<Rightarrow> IRewards \<Rightarrow> PublicKey \<Rightarrow> error + TransactionInstruction" where
  "createSetNewRewardsInstruction tokenSwapAccount authority adminAccount newRewards programId =
     (let keys =
            [\<lparr>pubkey = publicKey tokenSwapAccount, isSigner = True, isWritable = False\<rparr>,
             \<lparr>pubkey = authority, isSigner = False, isWritable = False\<rparr>,
             \<lparr>pubkey = adminAccount, isSigner = True, isWritable = False\<rparr>];
          dataLayout = Structure
            [u8 ''instruction'',
             RewardsLayout ''newRewards''];
          data = Buffer_alloc (span dataLayout)
      in ebind (Rewards_toBuffer newRewards) (\<lambda>b1.
         ebind (layout_encode dataLayout
                  (Obj [(''instruction'', Num (AdminInstruction_code CommitNewAdmin)),
                        (''newRewards'', Buf b1)])
                  data)
           (\<lambda>(data, encodeLength).
              Inr \<lparr>ti_keys = keys, ti_programId = programId, ti_data = slice data 0 encodeLength\<rparr>)))"

subsection \<open>The swap family (\<open>enum SwapInstruction\<close> and its encoders)\<close>

datatype SwapInstruction =
    Swap_Initialize
  | Swap
  | Deposit
  | Withdraw
  | WithdrawOne

fun SwapInstruction_code :: "SwapInstruction \<Rightarrow> int" where
  "SwapInstruction_code Swap_Initialize = 0"
| "SwapInstruction_code Swap = 1"
| "SwapInstruction_code Deposit = 2"
| "SwapInstruction_code Withdraw = 3"
| "SwapInstruction_code WithdrawOne = 4"

definition createInitSwapInstruction ::
  "PublicKey \<Rightarrow> PublicKey \<Rightarrow> PublicKey \<Rightarrow> PublicKey \<Rightarrow> PublicKey \<Rightarrow> PublicKey \<Rightarrow> PublicKey \<Rightarrow> PublicKey \<Rightarrow> PublicKey \<Rightarrow> PublicKey \<Rightarrow> PublicKey \<Rightarrow> PublicKey \<Rightarrow> PublicKey \<Rightarrow> PublicKey \<Rightarrow> int \<Rightarrow> int \<Rightarrow> IFees \<Rightarrow> IRewards \<Rightarrow> int \<Rightarrow> int \<Rightarrow> int \<Rightarrow> PublicKey \<Rightarrow> error + TransactionInstruction" where
  "createInitSwapInstruction tokenSwap authority adminAccount adminFeeAccountA adminFeeAccountB tokenMintA tokenAccountA tokenMintB tokenAccountB poolTokenMint poolTokenAccount rewardTokenAccount rewardMint tokenProgramId nonce ampFactor fees rewards k i isOpenTwap programId =
     (let keys =
            [\<lparr>pubkey = tokenSwap, isSigner = True, isWritable = False\<rparr>,
             \<lparr>pubkey = authority, isSigner = False, isWritable = False\<rparr>,
             \<lparr>pubkey = adminAccount, isSigner = False, isWritable = False\<rparr>,
             \<lparr>pubkey = adminFeeAccountA, isSigner = False, isWritable = False\<rparr>,
             \<lparr>pubkey = adminFeeAccountB, isSigner = False, isWritable = False\<rparr>,
             \<lparr>pubkey = tokenMintA, isSigner = False, isWritable = False\<rparr>,
             \<lparr>pubkey = tokenAccountA, isSigner = False, isWritable = False\<rparr>,
             \<lparr>pubkey = tokenMintB, isSigner = False, isWritable = False\<rparr>,
             \<lparr>pubkey = tokenAccountB, isSigner = False, isWritable = False\<rparr>,
             \<lparr>pubkey = poolTokenMint, isSigner = False, isWritable = True\<rparr>,
             \<lparr>pubkey = poolTokenAccount, isSigner = False, isWritable = True\<rparr>,
             \<lparr>pubkey = rewardMint, isSigner = False, isWritable = False\<rparr>,
             \<lparr>pubkey = rewardTokenAccount, isSigner = False, isWritable = False\<rparr>,
             \<lparr>pubkey = tokenProgramId, isSigner = False, isWritable = False\<rparr>];
          dataLayout = Structure
            [u8 ''instruction'',
             u8 ''nonce'',
             nu64 ''ampFactor'',
             FeesLayout ''fees'',
             nu64 ''k'',
             nu64 ''i'',
             nu64 ''isOpenTwap''];
          data = Buffer_alloc (span dataLayout)
      in ebind (NumberU64_toBuffer ampFactor) (\<lambda>b1.
         ebind (Fees_toBuffer fees) (\<lambda>b2.
         ebind (Rewards_toBuffer rewards) (\<lambda>b3.
         ebind (NumberU64_toBuffer k) (\<lambda>b4.
         ebind (NumberU64_toBuffer i) (\<lambda>b5.
         ebind (NumberU64_toBuffer isOpenTwap) (\<lambda>b6.
         ebind (layout_encode dataLayout
                  (Obj [(''instruction'', Num (SwapInstruction_code Swap_Initialize)),
                        (''nonce'', Num nonce),
                        (''ampFactor'', Buf b1),
                        (''fees'', Buf b2),
                        (''rewards'', Buf b3),
                        (''k'', Buf b4),
                        (''i'', Buf b5),
                        (''isOpenTwap'', Buf b6)])
                  data)
           (\<lambda>(data, encodeLength).
              Inr \<lparr>ti_keys = keys, ti_programId = programId, ti_data = data\<rparr>))))))))"

definition createSwapInstruction ::
  "PublicKey \<Rightarrow> PublicKey \<Rightarrow> PublicKey \<Rightarrow> PublicKey \<Rightarrow> PublicKey \<Rightarrow> PublicKey \<Rightarrow> PublicKey \<Rightarrow> PublicKey \<Rightarrow> PublicKey \<Rightarrow> PublicKey \<Rightarrow> int \<Rightarrow> int \<Rightarrow> int \<Rightarrow> PublicKey \<Rightarrow> error + TransactionInstruction" where
  "createSwapInstruction tokenSwap authority userSource poolSource poolDestination userDestination adminDestination rewardDestination rewardMint tokenProgramId amountIn minimumAmountOut swapDirection programId =
     (let keys =
            [\<lparr>pubkey = tokenSwap, isSigner = False, isWritable = False\<rparr>,
             \<lparr>pubkey = authority, isSigner = False, isWritable = False\<rparr>,
             \<lparr>pubkey = userSource, isSigner = False, isWritable = True\<rparr>,
             \<lparr>pubkey = poolSource, isSigner = False, isWritable = True\<rparr>,
             \<lparr>pubkey = poolDestination, isSigner = False, isWritable = True\<rparr>,
             \<lparr>pubkey = userDestination, isSigner = False, isWritable = True\<rparr>,
             \<lparr>pubkey = rewardDestination, isSigner = False, isWritable = True\<rparr>,
             \<lparr>pubkey = rewardMint, isSigner = False, isWritable = True\<rparr>,
             \<lparr>pubkey = adminDestination, isSigner = False, isWritable = True\<rparr>,
             \<lparr>pubkey = tokenProgramId, isSigner = False, isWritable = False\<rparr>,
             \<lparr>pubkey = SYSVAR_CLOCK_PUBKEY, isSigner = False, isWritable = False\<rparr>];
          dataLayout = Structure
            [u8 ''instruction'',
             nu64 ''amountIn'',
             nu64 ''minimumAmountOut'',
             nu64 ''swapDirection''];
          data = Buffer_alloc (span dataLayout)
      in ebind (NumberU64_toBuffer amountIn) (\<lambda>b1.
         ebind (NumberU64_toBuffer minimumAmountOut) (\<lambda>b2.
         ebind (NumberU64_toBuffer swapDirection) (\<lambda>b3.
         ebind (layout_encode dataLayout
                  (Obj [(''instruction'', Num (SwapInstruction_code Swap)),
                        (''amountIn'', Buf b1),
                        (''minimumAmountOut'', Buf b2),
                        (''swapDirection'', Buf b3)])
                  data)
           (\<lambda>(data, encodeLength).
              Inr \<lparr>ti_keys = keys, ti_programId = programId, ti_data = data\<rparr>)))))"

definition createDepositInstruction ::
  "PublicKey \<Rightarrow> PublicKey \<Rightarrow> PublicKey \<Rightarrow> PublicKey \<Rightarrow> PublicKey \<Rightarrow> PublicKey \<Rightarrow> PublicKey \<Rightarrow> PublicKey \<Rightarrow> PublicKey \<Rightarrow> int \<Rightarrow> int \<Rightarrow> int \<Rightarrow> PublicKey \<Rightarrow> error + TransactionInstruction" where
  "createDepositInstruction tokenSwap authority sourceA sourceB intoA intoB poolTokenMint poolTokenAccount tokenProgramId tokenAmountA tokenAmountB minimumPoolTokenAmount programId =
     (let keys =
            [\<lparr>pubkey = tokenSwap, isSigner = False, isWritable = False\<rparr>,
             \<lparr>pubkey = authority, isSigner = False, isWritable = False\<rparr>,
             \<lparr>pubkey = sourceA, isSigner = False, isWritable = True\<rparr>,
             \<lparr>pubkey = sourceB, isSigner = False, isWritable = True\<rparr>,
             \<lparr>pubkey = intoA, isSigner = False, isWritable = True\<rparr>,
             \<lparr>pubkey = intoB, isSigner = False, isWritable = True\<rparr>,
             \<lparr>pubkey = poolTokenMint, isSigner = False, isWritable = True\<rparr>,
             \<lparr>pubkey = poolTokenAccount, isSigner = False, isWritable = True\<rparr>,
             \<lparr>pubkey = tokenProgramId, isSigner = False, isWritable = False\<rparr>,
             \<lparr>pubkey = SYSVAR_CLOCK_PUBKEY, isSigner = False, isWritable = False\<rparr>];
          dataLayout = Structure
            [u8 ''instruction'',
             nu64 ''tokenAmountA'',
             nu64 ''tokenAmountB'',
             nu64 ''minimumPoolTokenAmount''];
          data = Buffer_alloc (span dataLayout)
      in ebind (NumberU64_toBuffer tokenAmountA) (\<lambda>b1.
         ebind (NumberU64_toBuffer tokenAmountB) (\<lambda>b2.
         ebind (NumberU64_toBuffer minimumPoolTokenAmount) (\<lambda>b3.
         ebind (layout_encode dataLayout
                  (Obj [(''instruction'', Num (SwapInstruction_code Deposit)),
                        (''tokenAmountA'', Buf b1),
                        (''tokenAmountB'', Buf b2),
                        (''minimumPoolTokenAmount'', Buf b3)])
                  data)
           (\<lambda>(data, encodeLength).
              Inr \<lparr>ti_keys = keys, ti_programId = programId, ti_data = data\<rparr>)))))"

definition createWithdrawInstruction ::
  "PublicKey \<Rightarrow> PublicKey \<Rightarrow> PublicKey \<Rightarrow> PublicKey \<Rightarrow> PublicKey \<Rightarrow> PublicKey \<Rightarrow> PublicKey \<Rightarrow> PublicKey \<Rightarrow> PublicKey \<Rightarrow> PublicKey \<Rightarrow> PublicKey \<Rightarrow> int \<Rightarrow> int \<Rightarrow> int \<Rightarrow> PublicKey \<Rightarrow> error + TransactionInstruction" where
  "createWithdrawInstruction tokenSwap authority poolMint sourcePoolAccount fromA fromB userAccountA userAccountB adminFeeAccountA adminFeeAccountB tokenProgramId poolTokenAmount minimumTokenA minimumTokenB programId =
     (let keys =
            [\<lparr>pubkey = tokenSwap, isSigner = False, isWritable = False\<rparr>,
             \<lparr>pubkey = authority, isSigner = False, isWritable = False\<rparr>,
             \<lparr>pubkey = poolMint, isSigner = False, isWritable = True\<rparr>,
             \<lparr>pubkey = sourcePoolAccount, isSigner = False, isWritable = True\<rparr>,
             \<lparr>pubkey = fromA, isSigner = False, isWritable = True\<rparr>,
             \<lparr>pubkey = fromB, isSigner = False, isWritable = True\<rparr>,
             \<lparr>pubkey = userAccountA, isSigner = False, isWritable = True\<rparr>,
             \<lparr>pubkey = userAccountB, isSigner = False, isWritable = True\<rparr>,
             \<lparr>pubkey = adminFeeAccountA, isSigner = False, isWritable = True\<rparr>,
             \<lparr>pubkey = adminFeeAccountB, isSigner = False, isWritable = True\<rparr>,
             \<lparr>pubkey = tokenProgramId, isSigner = False, isWritable = False\<rparr>];
          dataLayout = Structure
            [u8 ''instruction'',
             nu64 ''poolTokenAmount'',
             nu64 ''minimumTokenA'',
             nu64 ''minimumTokenB''];
          data = Buffer_alloc (span dataLayout)
      in ebind (NumberU64_toBuffer poolTokenAmount) (\<lambda>b1.
         ebind (NumberU64_toBuffer minimumTokenA) (\<lambda>b2.
         ebind (NumberU64_toBuffer minimumTokenB) (\<lambda>b3.
         ebind (layout_encode dataLayout
                  (Obj [(''instruction'', Num (SwapInstruction_code Withdraw)),
                        (''poolTokenAmount'', Buf b1),
                        (''minimumTokenA'', Buf b2),
                        (''minimumTokenB'', Buf b3)])
                  data)
           (\<lambda>(data, encodeLength).
              Inr \<lparr>ti_keys = keys, ti_programId = programId, ti_data = data\<rparr>)))))"

definition createWithdrawOneInstruction ::
  "PublicKey \<Rightarrow> PublicKey \<Rightarrow> PublicKey \<Rightarrow> PublicKey \<Rightarrow> PublicKey \<Rightarrow> PublicKey \<Rightarrow> PublicKey \<Rightarrow> PublicKey \<Rightarrow> PublicKey \<Rightarrow> int \<Rightarrow> int \<Rightarrow> PublicKey \<Rightarrow> error + TransactionInstruction" where
  "createWithdrawOneInstruction tokenSwap authority poolMint sourcePool base quote userDestination adminDestination tokenProgramId poolTokenAmount minimumTokenAmount programId =
     (let keys =
            [\<lparr>pubkey = tokenSwap, isSigner = False, isWritable = False\<rparr>,
             \<lparr>pubkey = authority, isSigner = False, isWritable = False\<rparr>,
             \<lparr>pubkey = poolMint, isSigner = False, isWritable = True\<rparr>,
             \<lparr>pubkey = sourcePool, isSigner = False, isWritable = True\<rparr>,
             \<lparr>pubkey = base, isSigner = False, isWritable = True\<rparr>,
             \<lparr>pubkey = quote, isSigner = False, isWritable = True\<rparr>,
             \<lparr>pubkey = userDestination, isSigner = False, isWritable = True\<rparr>,
             \<lparr>pubkey = adminDestination, isSigner = False, isWritable = True\<rparr>,
             \<lparr>pubkey = tokenProgramId, isSigner = False, isWritable = False\<rparr>,
             \<lparr>pubkey = SYSVAR_CLOCK_PUBKEY, isSigner = False, isWritable = False\<rparr>];
          dataLayout = Structure
            [u8 ''instruction'',
             nu64 ''poolTokenAmount'',
             nu64 ''minimumTokenAmount''];
          data = Buffer_alloc (span dataLayout)
      in ebind (NumberU64_toBuffer poolTokenAmount) (\<lambda>b1.
         ebind (NumberU64_toBuffer minimumTokenAmount) (\<lambda>b2.
         ebind (layout_encode dataLayout
                  (Obj [(''instruction'', Num (SwapInstruction_code WithdrawOne)),
                        (''poolTokenAmount'', Buf b1),
                        (''minimumTokenA'', Buf b2)])
                  data)
           (\<lambda>(data, encodeLength).
              Inr \<lparr>ti_keys = keys, ti_programId = programId, ti_data = data\<rparr>))))"

subsection \<open>The encoders of \<open>instructions.ts\<close>\<close>

text \<open>This file writes its tags as literals and takes plain numbers, which it wraps in
  \<open>NumberU64\<close> itself; its \<open>Fees\<close> is the plain record of eight numbers. Its
  \<open>createInitSwapInstruction\<close> carries the file's name here, to keep it apart from the
  one above. The admin encoders that the file repeats are those of the admin family
  above, without the initialize encoder.\<close>

definition instructions_createInitSwapInstruction ::
  "Keypair \<Rightarrow> PublicKey \<Rightarrow> PublicKey \<Rightarrow> PublicKey \<Rightarrow> PublicKey \<Rightarrow> PublicKey \<Rightarrow> PublicKey \<Rightarrow> PublicKey \<Rightarrow> PublicKey \<Rightarrow> PublicKey \<Rightarrow> PublicKey \<Rightarrow> PublicKey \<Rightarrow> PublicKey \<Rightarrow> int \<Rightarrow> int \<Rightarrow> IFees \<Rightarrow> error + TransactionInstruction" where
  "instructions_createInitSwapInstruction tokenSwapAccount authority adminAccount adminFeeAccountA adminFeeAccountB tokenMintA tokenAccountA tokenMintB tokenAccountB poolTokenMint poolTokenAccount swapProgramId tokenProgramId nonce ampFactor fees =
     (let keys =
            [\<lparr>pubkey = publicKey tokenSwapAccount, isSigner = False, isWritable = True\<rparr>,
             \<lparr>pubkey = authority, isSigner = False, isWritable = False\<rparr>,
             \<lparr>pubkey = adminAccount, isSigner = False, isWritable = False\<rparr>,
             \<lparr>pubkey = adminFeeAccountA, isSigner = False, isWritable = False\<rparr>,
             \<lparr>pubkey = adminFeeAccountB, isSigner = False, isWritable = False\<rparr>,
             \<lparr>pubkey = tokenMintA, isSigner = False, isWritable = False\<rparr>,
             \<lparr>pubkey = tokenAccountA, isSigner = False, isWritable = False\<rparr>,
             \<lparr>pubkey = tokenMintB, isSigner = False, isWritable = False\<rparr>,
             \<lparr>pubkey = tokenAccountB, isSigner = False, isWritable = False\<rparr>,
             \<lparr>pubkey = poolTokenMint, isSigner = False, isWritable = True\<rparr>,
             \<lparr>pubkey = poolTokenAccount, isSigner = False, isWritable = True\<rparr>,
             \<lparr>pubkey = tokenProgramId, isSigner = False, isWritable = False\<rparr>];
          dataLayout = Structure
            [u8 ''instruction'',
             u8 ''nonce'',
             Uint64Layout ''ampFactor'',
             Uint64Layout ''adminTradeFeeNumerator'',
             Uint64Layout ''adminTradeFeeDenominator'',
             Uint64Layout ''adminWithdrawFeeNumerator'',
             Uint64Layout ''adminWithdrawFeeDenominator'',
             Uint64Layout ''tradeFeeNumerator'',
             Uint64Layout ''tradeFeeDenominator'',
             Uint64Layout ''withdrawFeeNumerator'',
             Uint64Layout ''withdrawFeeDenominator''];
          data = Buffer_alloc (span dataLayout)
      in ebind (NumberU64_toBuffer ampFactor) (\<lambda>b1.
         ebind (NumberU64_toBuffer (adminTradeFeeNumerator fees)) (\<lambda>b2.
         ebind (NumberU64_toBuffer (adminTradeFeeDenominator fees)) (\<lambda>b3.
         ebind (NumberU64_toBuffer (adminWithdrawFeeNumerator fees)) (\<lambda>b4.
         ebind (NumberU64_toBuffer (adminWithdrawFeeDenominator fees)) (\<lambda>b5.
         ebind (NumberU64_toBuffer (tradeFeeNumerator fees)) (\<lambda>b6.
         ebind (NumberU64_toBuffer (tradeFeeDenominator fees)) (\<lambda>b7.
         ebind (NumberU64_toBuffer (withdrawFeeNumerator fees)) (\<lambda>b8.
         ebind (NumberU64_toBuffer (withdrawFeeDenominator fees)) (\<lambda>b9.
         ebind (layout_encode dataLayout
                  (Obj [(''instruction'', Num 0),
                        (''nonce'', Num nonce),
                        (''ampFactor'', Buf b1),
                        (''adminTradeFeeNumerator'', Buf b2),
                        (''adminTradeFeeDenominator'', Buf b3),
                        (''adminWithdrawFeeNumerator'', Buf b4),
                        (''adminWithdrawFeeDenominator'', Buf b5),
                        (''tradeFeeNumerator'', Buf b6),
                        (''tradeFeeDenominator'', Buf b7),
                        (''withdrawFeeNumerator'', Buf b8),
                        (''withdrawFeeDenominator'', Buf b9)])
                  data)
           (\<lambda>(data, encodeLength).
              Inr \<lparr>ti_keys = keys, ti_programId = swapProgramId, ti_data = slice data 0 encodeLength\<rparr>)))))))))))"

definition swapInstruction ::
  "PublicKey \<Rightarrow> PublicKey \<Rightarrow> PublicKey \<Rightarrow> PublicKey \<Rightarrow> PublicKey \<Rightarrow> PublicKey \<Rightarrow> PublicKey \<Rightarrow> PublicKey \<Rightarrow> PublicKey \<Rightarrow> int \<Rightarrow> int \<Rightarrow> error + TransactionInstruction" where
  "swapInstruction tokenSwap authority userSource poolSource poolDestination userDestination adminDestination swapProgramId tokenProgramId amountIn minimumAmountOut =
     (let keys =
            [\<lparr>pubkey = tokenSwap, isSigner = False, isWritable = False\<rparr>,
             \<lparr>pubkey = authority, isSigner = False, isWritable = False\<rparr>,
             \<lparr>pubkey = userSource, isSigner = False, isWritable = True\<rparr>,
             \<lparr>pubkey = poolSource, isSigner = False, isWritable = True\<rparr>,
             \<lparr>pubkey = poolDestination, isSigner = False, isWritable = True\<rparr>,
             \<lparr>pubkey = userDestination, isSigner = False, isWritable = True\<rparr>,
             \<lparr>pubkey = adminDestination, isSigner = False, isWritable = True\<rparr>,
             \<lparr>pubkey = tokenProgramId, isSigner = False, isWritable = False\<rparr>,
             \<lparr>pubkey = SYSVAR_CLOCK_PUBKEY, isSigner = False, isWritable = False\<rparr>];
          dataLayout = Structure
            [u8 ''instruction'',
             Uint64Layout ''amountIn'',
             Uint64Layout ''minimumAmountOut''];
          data = Buffer_alloc (span dataLayout)
      in ebind (NumberU64_toBuffer amountIn) (\<lambda>b1.
         ebind (NumberU64_toBuffer minimumAmountOut) (\<lambda>b2.
         ebind (layout_encode dataLayout
                  (Obj [(''instruction'', Num 1),
                        (''amountIn'', Buf b1),
                        (''minimumAmountOut'', Buf b2)])
                  data)
           (\<lambda>(data, encodeLength).
              Inr \<lparr>ti_keys = keys, ti_programId = swapProgramId, ti_data = data\<rparr>))))"

definition depositInstruction ::
  "PublicKey \<Rightarrow> PublicKey \<Rightarrow> PublicKey \<Rightarrow> PublicKey \<Rightarrow> PublicKey \<Rightarrow> PublicKey \<Rightarrow> PublicKey \<Rightarrow> PublicKey \<Rightarrow> PublicKey \<Rightarrow> PublicKey \<Rightarrow> int \<Rightarrow> int \<Rightarrow> int \<Rightarrow> error + TransactionInstruction" where
  "depositInstruction tokenSwap authority sourceA sourceB intoA intoB poolTokenMint poolTokenAccount swapProgramId tokenProgramId tokenAmountA tokenAmountB minimumPoolTokenAmount =
     (let keys =
            [\<lparr>pubkey = tokenSwap, isSigner = False, isWritable = False\<rparr>,
             \<lparr>pubkey = authority, isSigner = False, isWritable = False\<rparr>,
             \<lparr>pubkey = sourceA, isSigner = False, isWritable = True\<rparr>,
             \<lparr>pubkey = sourceB, isSigner = False, isWritable = True\<rparr>,
             \<lparr>pubkey = intoA, isSigner = False, isWritable = True\<rparr>,
             \<lparr>pubkey = intoB, isSigner = False, isWritable = True\<rparr>,
             \<lparr>pubkey = poolTokenMint, isSigner = False, isWritable = True\<rparr>,
             \<lparr>pubkey = poolTokenAccount, isSigner = False, isWritable = True\<rparr>,
             \<lparr>pubkey = tokenProgramId, isSigner = False, isWritable = False\<rparr>,
             \<lparr>pubkey = SYSVAR_CLOCK_PUBKEY, isSigner = False, isWritable = False\<rparr>];
          dataLayout = Structure
            [u8 ''instruction'',
             Uint64Layout ''tokenAmountA'',
             Uint64Layout ''tokenAmountB'',
             Uint64Layout ''minimumPoolTokenAmount''];
          data = Buffer_alloc (span dataLayout)
      in ebind (NumberU64_toBuffer tokenAmountA) (\<lambda>b1.
         ebind (NumberU64_toBuffer tokenAmountB) (\<lambda>b2.
         ebind (NumberU64_toBuffer minimumPoolTokenAmount) (\<lambda>b3.
         ebind (layout_encode dataLayout
                  (Obj [(''instruction'', Num 2),
                        (''tokenAmountA'', Buf b1),
                        (''tokenAmountB'', Buf b2),
                        (''minimumPoolTokenAmount'', Buf b3)])
                  data)
           (\<lambda>(data, encodeLength).
              Inr \<lparr>ti_keys = keys, ti_programId = swapProgramId, ti_data = data\<rparr>)))))"

definition withdrawInstruction ::
  "PublicKey \<Rightarrow> PublicKey \<Rightarrow> PublicKey \<Rightarrow> PublicKey \<Rightarrow> PublicKey \<Rightarrow> PublicKey \<Rightarrow> PublicKey \<Rightarrow> PublicKey \<Rightarrow> PublicKey \<Rightarrow> PublicKey \<Rightarrow> PublicKey \<Rightarrow> PublicKey \<Rightarrow> int \<Rightarrow> int \<Rightarrow> int \<Rightarrow> error + TransactionInstruction" where
  "withdrawInstruction tokenSwap authority poolMint sourcePoolAccount fromA fromB userAccountA userAccountB adminFeeAccountA adminFeeAccountB swapProgramId tokenProgramId poolTokenAmount minimumTokenA minimumTokenB =
     (let keys =
            [\<lparr>pubkey = tokenSwap, isSigner = False, isWritable = False\<rparr>,
             \<lparr>pubkey = authority, isSigner = False, isWritable = False\<rparr>,
             \<lparr>pubkey = poolMint, isSigner = False, isWritable = True\<rparr>,
             \<lparr>pubkey = sourcePoolAccount, isSigner = False, isWritable = True\<rparr>,
             \<lparr>pubkey = fromA, isSigner = False, isWritable = True\<rparr>,
             \<lparr>pubkey = fromB, isSigner = False, isWritable = True\<rparr>,
             \<lparr>pubkey = userAccountA, isSigner = False, isWritable = True\<rparr>,
             \<lparr>pubkey = userAccountB, isSigner = False, isWritable = True\<rparr>,
             \<lparr>pubkey = adminFeeAccountA, isSigner = False, isWritable = True\<rparr>,
             \<lparr>pubkey = adminFeeAccountB, isSigner = False, isWritable = True\<rparr>,
             \<lparr>pubkey = tokenProgramId, isSigner = False, isWritable = False\<rparr>];
          dataLayout = Structure
            [u8 ''instruction'',
             Uint64Layout ''poolTokenAmount'',
             Uint64Layout ''minimumTokenA'',
             Uint64Layout ''minimumTokenB''];
          data = Buffer_alloc (span dataLayout)
      in ebind (NumberU64_toBuffer poolTokenAmount) (\<lambda>b1.
         ebind (NumberU64_toBuffer minimumTokenA) (\<lambda>b2.
         ebind (NumberU64_toBuffer minimumTokenB) (\<lambda>b3.
         ebind (layout_encode dataLayout
                  (Obj [(''instruction'', Num 3),
                        (''poolTokenAmount'', Buf b1),
                        (''minimumTokenA'', Buf b2),
                        (''minimumTokenB'', Buf b3)])
                  data)
           (\<lambda>(data, encodeLength).
              Inr \<lparr>ti_keys = keys, ti_programId = swapProgramId, ti_data = data\<rparr>)))))"

definition createInitFarmInstruction ::
  "Keypair \<Rightarrow> Keypair \<Rightarrow> PublicKey \<Rightarrow> PublicKey \<Rightarrow> PublicKey \<Rightarrow> PublicKey \<Rightarrow> PublicKey \<Rightarrow> PublicKey \<Rightarrow> PublicKey \<Rightarrow> PublicKey \<Rightarrow> PublicKey \<Rightarrow> int \<Rightarrow> IFees \<Rightarrow> error + TransactionInstruction" where
  "createInitFarmInstruction farmAccount farmBaseAccount authority adminAccount adminFeeAccountPool tokenMintPool tokenAccountPool deltafiTokenMint deltafiTokenAccount farmProgramId tokenProgramId nonce fees =
     (let keys =
            [\<lparr>pubkey = publicKey farmBaseAccount, isSigner = False, isWritable = True\<rparr>,
             \<lparr>pubkey = publicKey farmAccount, isSigner = False, isWritable = True\<rparr>,
             \<lparr>pubkey = authority, isSigner = False, isWritable = False\<rparr>,
             \<lparr>pubkey = adminAccount, isSigner = False, isWritable = False\<rparr>,
             \<lparr>pubkey = adminFeeAccountPool, isSigner = False, isWritable = False\<rparr>,
             \<lparr>pubkey = tokenMintPool, isSigner = False, isWritable = False\<rparr>,
             \<lparr>pubkey = tokenAccountPool, isSigner = False, isWritable = False\<rparr>,
             \<lparr>pubkey = deltafiTokenMint, isSigner = False, isWritable = True\<rparr>,
             \<lparr>pubkey = deltafiTokenAccount, isSigner = False, isWritable = True\<rparr>,
             \<lparr>pubkey = tokenProgramId, isSigner = False, isWritable = False\<rparr>];
          dataLayout = Structure
            [u8 ''instruction'',
             u8 ''nonce'',
             Uint64Layout ''adminTradeFeeNumerator'',
             Uint64Layout ''adminTradeFeeDenominator'',
             Uint64Layout ''adminWithdrawFeeNumerator'',
             Uint64Layout ''adminWithdrawFeeDenominator'',
             Uint64Layout ''tradeFeeNumerator'',
             Uint64Layout ''tradeFeeDenominator'',
             Uint64Layout ''withdrawFeeNumerator'',
             Uint64Layout ''withdrawFeeDenominator''];
          data = Buffer_alloc (span dataLayout)
      in ebind (NumberU64_toBuffer (adminTradeFeeNumerator fees)) (\<lambda>b1.
         ebind (NumberU64_toBuffer (adminTradeFeeDenominator fees)) (\<lambda>b2.
         ebind (NumberU64_toBuffer (adminWithdrawFeeNumerator fees)) (\<lambda>b3.
         ebind (NumberU64_toBuffer (adminWithdrawFeeDenominator fees)) (\<lambda>b4.
         ebind (NumberU64_toBuffer (tradeFeeNumerator fees)) (\<lambda>b5.
         ebind (NumberU64_toBuffer (tradeFeeDenominator fees)) (\<lambda>b6.
         ebind (NumberU64_toBuffer (withdrawFeeNumerator fees)) (\<lambda>b7.
         ebind (NumberU64_toBuffer (withdrawFeeDenominator fees)) (\<lambda>b8.
         ebind (layout_encode dataLayout
                  (Obj [(''instruction'', Num 108),
                        (''nonce'', Num nonce),
                        (''adminTradeFeeNumerator'', Buf b1),
                        (''adminTradeFeeDenominator'', Buf b2),
                        (''adminWithdrawFeeNumerator'', Buf b3),
                        (''adminWithdrawFeeDenominator'', Buf b4),
                        (''tradeFeeNumerator'', Buf b5),
                        (''tradeFeeDenominator'', Buf b6),
                        (''withdrawFeeNumerator'', Buf b7),
                        (''withdrawFeeDenominator'', Buf b8)])
                  data)
           (\<lambda>(data, encodeLength).
              Inr \<lparr>ti_keys = keys, ti_programId = farmProgramId, ti_data = slice data 0 encodeLength\<rparr>))))))))))"

definition farmEnableUserInstruction ::
  "PublicKey \<Rightarrow> PublicKey \<Rightarrow> PublicKey \<Rightarrow> PublicKey \<Rightarrow> PublicKey \<Rightarrow> error + TransactionInstruction" where
  "farmEnableUserInstruction farmAccount authority userFarmingAccount owner farmProgramId =
     (let keys =
            [\<lparr>pubkey = farmAccount, isSigner = False, isWritable = True\<rparr>,
             \<lparr>pubkey = authority, isSigner = False, isWritable = False\<rparr>,
             \<lparr>pubkey = userFarmingAccount, isSigner = False, isWritable = False\<rparr>,
             \<lparr>pubkey = owner, isSigner = False, isWritable = False\<rparr>];
          dataLayout = Structure
            [u8 ''instruction''];
          data = Buffer_alloc (span dataLayout)
      in ebind (layout_encode dataLayout
                  (Obj [(''instruction'', Num 30)])
                  data)
           (\<lambda>(data, encodeLength).
              Inr \<lparr>ti_keys = keys, ti_programId = farmProgramId, ti_data = slice data 0 encodeLength\<rparr>))"

definition farmDepositInstruction ::
  "PublicKey \<Rightarrow> PublicKey \<Rightarrow> PublicKey \<Rightarrow> PublicKey \<Rightarrow> PublicKey \<Rightarrow> PublicKey \<Rightarrow> PublicKey \<Rightarrow> PublicKey \<Rightarrow> PublicKey \<Rightarrow> PublicKey \<Rightarrow> PublicKey \<Rightarrow> int \<Rightarrow> error + TransactionInstruction" where
  "farmDepositInstruction farmBaseAccount farmAccount authority adminFeeAccountDeltafi sourcePool userFarming farmPool deltafiTokenMint destDeltafi farmProgramId tokenProgramId tokenAmountPool =
     (let keys =
            [\<lparr>pubkey = farmBaseAccount, isSigner = False, isWritable = True\<rparr>,
             \<lparr>pubkey = farmAccount, isSigner = False, isWritable = True\<rparr>,
             \<lparr>pubkey = authority, isSigner = False, isWritable = False\<rparr>,
             \<lparr>pubkey = adminFeeAccountDeltafi, isSigner = False, isWritable = False\<rparr>,
             \<lparr>pubkey = sourcePool, isSigner = False, isWritable = False\<rparr>,
             \<lparr>pubkey = userFarming, isSigner = False, isWritable = False\<rparr>,
             \<lparr>pubkey = farmPool, isSigner = False, isWritable = False\<rparr>,
             \<lparr>pubkey = deltafiTokenMint, isSigner = False, isWritable = True\<rparr>,
             \<lparr>pubkey = destDeltafi, isSigner = False, isWritable = False\<rparr>,
             \<lparr>pubkey = tokenProgramId, isSigner = False, isWritable = False\<rparr>,
             \<lparr>pubkey = SYSVAR_CLOCK_PUBKEY, isSigner = False, isWritable = False\<rparr>];
          dataLayout = Structure
            [u8 ''instruction'',
             Uint64Layout ''tokenAmountPool''];
          data = Buffer_alloc (span dataLayout)
      in ebind (NumberU64_toBuffer tokenAmountPool) (\<lambda>b1.
         ebind (layout_encode dataLayout
                  (Obj [(''instruction'', Num 31),
                        (''tokenAmountPool'', Buf b1)])
                  data)
           (\<lambda>(data, encodeLength).
              Inr \<lparr>ti_keys = keys, ti_programId = farmProgramId, ti_data = data\<rparr>)))"

definition farmWithdrawInstruction ::
  "PublicKey \<Rightarrow> PublicKey \<Rightarrow> PublicKey \<Rightarrow> PublicKey \<Rightarrow> PublicKey \<Rightarrow> PublicKey \<Rightarrow> PublicKey \<Rightarrow> PublicKey \<Rightarrow> PublicKey \<Rightarrow> PublicKey \<Rightarrow> PublicKey \<Rightarrow> int \<Rightarrow> error + TransactionInstruction" where
  "farmWithdrawInstruction farmBaseAccount farmAccount authority adminFeeAccountDeltafi userPoolAccount userFarming tokenMintPool deltafiTokenMint deltafiTokenAccount farmProgramId tokenProgramId tokenAmountPool =
     (let keys =
            [\<lparr>pubkey = farmBaseAccount, isSigner = False, isWritable = True\<rparr>,
             \<lparr>pubkey = farmAccount, isSigner = False, isWritable = True\<rparr>,
             \<lparr>pubkey = authority, isSigner = False, isWritable = False\<rparr>,
             \<lparr>pubkey = adminFeeAccountDeltafi, isSigner = False, isWritable = False\<rparr>,
             \<lparr>pubkey = userPoolAccount, isSigner = False, isWritable = False\<rparr>,
             \<lparr>pubkey = userFarming, isSigner = False, isWritable = False\<rparr>,
             \<lparr>pubkey = tokenMintPool, isSigner = False, isWritable = False\<rparr>,
             \<lparr>pubkey = deltafiTokenMint, isSigner = False, isWritable = True\<rparr>,
             \<lparr>pubkey = deltafiTokenAccount, isSigner = False, isWritable = True\<rparr>,
             \<lparr>pubkey = tokenProgramId, isSigner = False, isWritable = False\<rparr>,
             \<lparr>pubkey = SYSVAR_CLOCK_PUBKEY, isSigner = False, isWritable = False\<rparr>];
          dataLayout = Structure
            [u8 ''instruction'',
             Uint64Layout ''tokenAmountPool''];
          data = Buffer_alloc (span dataLayout)
      in ebind (layout_encode dataLayout
                  (Obj [(''instruction'', Num 32),
                        (''tokenAmountPool'', Num tokenAmountPool)])
                  data)
           (\<lambda>(data, encodeLength).
              Inr \<lparr>ti_keys = keys, ti_programId = farmProgramId, ti_data = data\<rparr>))"

definition farmEmergencyWithdrawInstruction ::
  "PublicKey \<Rightarrow> PublicKey \<Rightarrow> PublicKey \<Rightarrow> PublicKey \<Rightarrow> PublicKey \<Rightarrow> PublicKey \<Rightarrow> PublicKey \<Rightarrow> PublicKey \<Rightarrow> PublicKey \<Rightarrow> PublicKey \<Rightarrow> PublicKey \<Rightarrow> error + TransactionInstruction" where
  "farmEmergencyWithdrawInstruction farmBaseAccount farmAccount authority adminFeeAccountDeltafi userPoolAccount userFarming tokenMintPool deltafiTokenMint deltafiTokenAccount farmProgramId tokenProgramId =
     (let keys =
            [\<lparr>pubkey = farmBaseAccount, isSigner = False, isWritable = True\<rparr>,
             \<lparr>pubkey = farmAccount, isSigner = False, isWritable = True\<rparr>,
             \<lparr>pubkey = authority, isSigner = False, isWritable = False\<rparr>,
             \<lparr>pubkey = adminFeeAccountDeltafi, isSigner = False, isWritable = False\<rparr>,
             \<lparr>pubkey = userPoolAccount, isSigner = False, isWritable = False\<rparr>,
             \<lparr>pubkey = userFarming, isSigner = False, isWritable = False\<rparr>,
             \<lparr>pubkey = tokenMintPool, isSigner = False, isWritable = False\<rparr>,
             \<lparr>pubkey = deltafiTokenMint, isSigner = False, isWritable = True\<rparr>,
             \<lparr>pubkey = deltafiTokenAccount, isSigner = False, isWritable = True\<rparr>,
             \<lparr>pubkey = tokenProgramId, isSigner = False, isWritable = False\<rparr>,
             \<lparr>pubkey = SYSVAR_CLOCK_PUBKEY, isSigner = False, isWritable = False\<rparr>];
          dataLayout = Structure
            [u8 ''instruction''];
          data = Buffer_alloc (span dataLayout)
      in ebind (layout_encode dataLayout
                  (Obj [(''instruction'', Num 33)])
                  data)
           (\<lambda>(data, encodeLength).
              Inr \<lparr>ti_keys = keys, ti_programId = farmProgramId, ti_data = data\<rparr>))"

definition farmPrintPendingDeltafiInstruction ::
  "Keypair \<Rightarrow> PublicKey \<Rightarrow> PublicKey \<Rightarrow> PublicKey \<Rightarrow> PublicKey \<Rightarrow> PublicKey \<Rightarrow> PublicKey \<Rightarrow> PublicKey \<Rightarrow> PublicKey \<Rightarrow> PublicKey \<Rightarrow> int \<Rightarrow> IFees \<Rightarrow> error + TransactionInstruction" where
  "farmPrintPendingDeltafiInstruction farmAccount authority adminAccount adminFeeAccountPool tokenMintPool tokenAccountPool deltafiTokenMint deltafiTokenAccount farmProgramId tokenProgramId nonce fees =
     (let keys =
            [\<lparr>pubkey = publicKey farmAccount, isSigner = False, isWritable = True\<rparr>,
             \<lparr>pubkey = authority, isSigner = False, isWritable = False\<rparr>,
             \<lparr>pubkey = adminAccount, isSigner = False, isWritable = False\<rparr>,
             \<lparr>pubkey = adminFeeAccountPool, isSigner = False, isWritable = False\<rparr>,
             \<lparr>pubkey = tokenMintPool, isSigner = False, isWritable = False\<rparr>,
             \<lparr>pubkey = tokenAccountPool, isSigner = False, isWritable = False\<rparr>,
             \<lparr>pubkey = deltafiTokenMint, isSigner = False, isWritable = True\<rparr>,
             \<lparr>pubkey = deltafiTokenAccount, isSigner = False, isWritable = True\<rparr>,
             \<lparr>pubkey = tokenProgramId, isSigner = False, isWritable = False\<rparr>];
          dataLayout = Structure
            [u8 ''instruction'',
             u8 ''nonce'',
             Uint64Layout ''adminTradeFeeNumerator'',
             Uint64Layout ''adminTradeFeeDenominator'',
             Uint64Layout ''adminWithdrawFeeNumerator'',
             Uint64Layout ''adminWithdrawFeeDenominator'',
             Uint64Layout ''tradeFeeNumerator'',
             Uint64Layout ''tradeFeeDenominator'',
             Uint64Layout ''withdrawFeeNumerator'',
             Uint64Layout ''withdrawFeeDenominator''];
          data = Buffer_alloc (span dataLayout)
      in ebind (NumberU64_toBuffer (adminTradeFeeNumerator fees)) (\<lambda>b1.
         ebind (NumberU64_toBuffer (adminTradeFeeDenominator fees)) (\<lambda>b2.
         ebind (NumberU64_toBuffer (adminWithdrawFeeNumerator fees)) (\<lambda>b3.
         ebind (NumberU64_toBuffer (adminWithdrawFeeDenominator fees)) (\<lambda>b4.
         ebind (NumberU64_toBuffer (tradeFeeNumerator fees)) (\<lambda>b5.
         ebind (NumberU64_toBuffer (tradeFeeDenominator fees)) (\<lambda>b6.
         ebind (NumberU64_toBuffer (withdrawFeeNumerator fees)) (\<lambda>b7.
         ebind (NumberU64_toBuffer (withdrawFeeDenominator fees)) (\<lambda>b8.
         ebind (layout_encode dataLayout
                  (Obj [(''instruction'', Num 34),
                        (''nonce'', Num nonce),
                        (''adminTradeFeeNumerator'', Buf b1),
                        (''adminTradeFeeDenominator'', Buf b2),
                        (''adminWithdrawFeeNumerator'', Buf b3),
                        (''adminWithdrawFeeDenominator'', Buf b4),
                        (''tradeFeeNumerator'', Buf b5),
                        (''tradeFeeDenominator'', Buf b6),
                        (''withdrawFeeNumerator'', Buf b7),
                        (''withdrawFeeDenominator'', Buf b8)])
                  data)
           (\<lambda>(data, encodeLength).
              Inr \<lparr>ti_keys = keys, ti_programId = farmProgramId, ti_data = slice data 0 encodeLength\<rparr>))))))))))"

section \<open>Loading the farm state (\<open>farm.ts\<close>)\<close>

text \<open>Reading a property of a decoded object (\<open>None\<close> is JavaScript's
  \<open>undefined\<close>) and JavaScript's truthiness, as \<open>!farmData.isInitialized\<close> uses it.\<close>

fun property :: "val \<Rightarrow> string \<Rightarrow> val option" where
  "property (Obj kvs) p = map_of kvs p"
| "property (Num v) p = None"
| "property (U64 v) p = None"
| "property (Buf b) p = None"

fun truthy :: "val option \<Rightarrow> bool" where
  "truthy None = False"
| "truthy (Some (Num v)) = (v \<noteq> 0)"
| "truthy (Some (U64 v)) = True"
| "truthy (Some (Buf b)) = True"
| "truthy (Some (Obj kvs)) = True"

record Farm =
  farm_farm :: PublicKey
  farm_farmProgramId :: PublicKey
  farm_tokenProgramId :: PublicKey
  farm_deltafiTokenMint :: "val option"
  farm_authority :: PublicKey
  farm_adminAccount :: "val option"
  farm_adminFeeAccountPool :: "val option"
  farm_tokenAccountPool :: "val option"
  farm_mintPool :: "val option"
  farm_fees :: "(string \<times> val option) list"

text \<open>\<open>Farm.loadFarm\<close>. The account fetch \<open>loadAccount\<close> (of \<open>util/account.ts\<close>)
  and the address derivation \<open>PublicKey.findProgramAddress\<close> are not among the sources:
  the loader takes the outcome of the fetch, either an error or the account's bytes, and
  the derivation as a function. The layout \<open>layout.FarmLayout\<close> is an argument too. The
  error thrown for a cleared flag, \<open>Invalid farm state\<close>, is the
  \<open>UninitializedError\<close>.\<close>

definition loadFarm ::
  "(error + byte list) \<Rightarrow> layout \<Rightarrow> (PublicKey \<Rightarrow> PublicKey \<Rightarrow> PublicKey)
     \<Rightarrow> PublicKey \<Rightarrow> PublicKey \<Rightarrow> error + Farm" where
  "loadFarm loaded farmLayout findProgramAddress address programId =
     ebind loaded (\<lambda>data.
     ebind (decode farmLayout data) (\<lambda>farmData.
       if \<not> truthy (property farmData ''isInitialized'') then Inl UninitializedError
       else
         let authority = findProgramAddress address programId;
             adminAccount = property farmData ''adminAccount'';
             adminFeeAccountPool = property farmData ''adminFeeAccountPool'';
             tokenAccountPool = property farmData ''tokenAccountPool'';
             deltafiTokenMint = property farmData ''deltafiTokenMint'';
             mintPool = property farmData ''mintPool'';
             tokenProgramId = TOKEN_PROGRAM_ID;
             fees =
               [(''adminTradeFeeNumerator'', property farmData ''adminTradeFeeNumerator''),
                (''adminTradeFeeDenominator'', property farmData ''adminTradeFeeDenominator''),
                (''adminWithdrawFeeNumerator'', property farmData ''adminWithdrawFeeNumerator''),
                (''adminWithdrawFeeDenominator'', property farmData ''adminWithdrawFeeDenominator''),
                (''tradeFeeNumerator'', property farmData ''tradeFeeNumerator''),
                (''tradeFeeDenominator'', property farmData ''tradeFeeDenominator''),
                (''withdrawFeeNumerator'', property farmData ''withdrawFeeNumerator''),
                (''withdrawFeeDenominator'', property farmData ''withdrawFeeDenominator'')]
         in Inr \<lparr>farm_farm = address,
                 farm_farmProgramId = programId,
                 farm_tokenProgramId = tokenProgramId,
                 farm_deltafiTokenMint = deltafiTokenMint,
                 farm_authority = authority,
                 farm_adminAccount = adminAccount,
                 farm_adminFeeAccountPool = adminFeeAccountPool,
                 farm_tokenAccountPool = tokenAccountPool,
                 farm_mintPool = mintPool,
                 farm_fees = fees\<rparr>))"

section \<open>Predicates of the statements\<close>

text \<open>Every field of a fee schedule, or of a reward schedule, fits an unsigned 64-bit
  integer.\<close>

definition fees_fit :: "IFees \<Rightarrow> bool" where
  "fees_fit f =
     (fits_unsigned 8 (adminTradeFeeNumerator f) \<and> fits_unsigned 8 (adminTradeFeeDenominator f)
      \<and> fits_unsigned 8 (adminWithdrawFeeNumerator f)
      \<and> fits_unsigned 8 (adminWithdrawFeeDenominator f)
      \<and> fits_unsigned 8 (tradeFeeNumerator f) \<and> fits_unsigned 8 (tradeFeeDenominator f)
      \<and> fits_unsigned 8 (withdrawFeeNumerator f) \<and> fits_unsigned 8 (withdrawFeeDenominator f))"

definition rewards_fit :: "IRewards \<Rightarrow> bool" where
  "rewards_fit r =
     (fits_unsigned 8 (tradeRewardNumerator r) \<and> fits_unsigned 8 (tradeRewardDenominator r)
      \<and> fits_unsigned 8 (tradeRewardCap r))"

section \<open>Basic facts about the codec\<close>

lemma ebind_Inl [simp]: "ebind (Inl e) f = Inl e"
  by (simp add: ebind_def)

lemma ebind_Inr [simp]: "ebind (Inr x) f = f x"
  by (simp add: ebind_def)

lemma length_le_bytes [simp]: "length (le_bytes k n) = k"
  by (induction k arbitrary: n) simp_all

lemma le_value_le_bytes:
  "0 \<le> n \<Longrightarrow> n < 256 ^ k \<Longrightarrow> le_value (le_bytes k n) = n"
proof (induction k arbitrary: n)
  case 0
  then show ?case by simp
next
  case (Suc k)
  have "n div 256 < 256 ^ k"
    using Suc.prems by (simp add: div_less_iff_less_mult mult.commute)
  moreover have "0 \<le> n div 256"
    using Suc.prems by simp
  ultimately have "le_value (le_bytes k (n div 256)) = n div 256"
    by (rule Suc.IH [rotated])
  moreover have "uint (word_of_int (n mod 256) :: byte) = n mod 256"
    by (simp add: uint_word_of_int)
  ultimately show ?case by simp
qed

lemma le_value_replicate_0 [simp]: "le_value (replicate n 0) = 0"
  by (induction n) simp_all

lemma le_bytes_8:
  "le_bytes 8 n =
     [word_of_int (n mod 256),
      word_of_int (n div 256 mod 256),
      word_of_int (n div 256 div 256 mod 256),
      word_of_int (n div 256 div 256 div 256 mod 256),
      word_of_int (n div 256 div 256 div 256 div 256 mod 256),
      word_of_int (n div 256 div 256 div 256 div 256 div 256 mod 256),
      word_of_int (n div 256 div 256 div 256 div 256 div 256 div 256 mod 256),
      word_of_int (n div 256 div 256 div 256 div 256 div 256 div 256 div 256 mod 256)]"
  by (simp add: eval_nat_numeral)

lemma replicate_8: "replicate 8 x = [x, x, x, x, x, x, x, x]"
  by (simp add: eval_nat_numeral)

lemmas field_defs =
  u8_def u32_def nu64_def ns64_def Uint64Layout_def PublicKeyLayout_def U256Layout_def
  FixedU256Layout_def FixedU64Layout_def FeesLayout_def RewardsLayout_def OracleLayout_def

lemmas buffer_defs = layout_encode_def Buffer_alloc_def slice_def

text \<open>A decoder has one way to fail.\<close>

lemma decode_error_kind:
  "decode l b = Inl e \<Longrightarrow> e = StructuralError"
  "decode_fields fs b = Inl e \<Longrightarrow> e = StructuralError"
proof (induction l b and fs b arbitrary: e and e rule: decode_decode_fields.induct)
  case (5 fs b)
  then show ?case by (cases "decode_fields fs b") auto
next
  case (7 f fs b)
  show ?case
  proof (cases "decode (snd f) b")
    case (Inl e')
    with 7 show ?thesis by simp
  next
    case (Inr v)
    with 7 show ?thesis
      by (cases "decode_fields fs (drop (span (snd f)) b)") auto
  qed
qed (auto split: if_splits simp: Let_def)

text \<open>A source shorter than the span is refused: by the field that runs out of bytes in
  a composite, whichever field that is.\<close>

lemma decode_short:
  "length b < span l \<Longrightarrow> decode l b = Inl StructuralError"
  "length b < fields_span fs \<Longrightarrow> decode_fields fs b = Inl StructuralError"
proof (induction l b and fs b rule: decode_decode_fields.induct)
  case (7 f fs b)
  show ?case
  proof (cases "decode (snd f) b")
    case (Inl e)
    then show ?thesis using decode_error_kind(1) by fastforce
  next
    case (Inr v)
    have "\<not> length b < span (snd f)"
      using Inr 7(1) by auto
    then have "length (drop (span (snd f)) b) < fields_span fs"
      using 7(3) by simp
    then have "decode_fields fs (drop (span (snd f)) b) = Inl StructuralError"
      using 7(2) Inr by simp
    then show ?thesis using Inr by simp
  qed
qed auto

lemma span_ConfigInfoLayout: "span ConfigInfoLayout = 202"
  by (simp add: ConfigInfoLayout_def field_defs)

lemma span_FeesLayout: "span (snd (FeesLayout p)) = 64"
  by (simp add: field_defs)

section \<open>Decoding short buffers\<close>

text \<open>C5. Decoding a source that is strictly shorter than the span of a fixed-span
  layout fails with \<open>StructuralError\<close>, so no struct, partial or otherwise, is returned.
  This holds for every layout; in particular for a source one byte short of the
  \<open>ConfigInfo\<close> layout (201 bytes) and for \<open>Fees.fromBuffer\<close> on fewer than 64
  bytes.\<close>

theorem decode_short_buffer_fails:
  "(length b < span l \<longrightarrow> decode l b = Inl StructuralError)
   \<and> (length c = span ConfigInfoLayout - 1 \<longrightarrow> decode ConfigInfoLayout c = Inl StructuralError)
   \<and> (length d < 64 \<longrightarrow> Fees_fromBuffer d = Inl StructuralError)"
proof (intro conjI impI)
  assume "length b < span l"
  then show "decode l b = Inl StructuralError"
    by (rule decode_short(1))
next
  assume "length c = span ConfigInfoLayout - 1"
  then have "length c < span ConfigInfoLayout"
    by (simp add: span_ConfigInfoLayout)
  then show "decode ConfigInfoLayout c = Inl StructuralError"
    by (rule decode_short(1))
next
  assume "length d < 64"
  then have "length d < span (snd (FeesLayout ''fees''))"
    by (simp add: span_FeesLayout)
  then show "Fees_fromBuffer d = Inl StructuralError"
    unfolding Fees_fromBuffer_def Let_def by (rule decode_short(1))
qed

theorem decode_short_buffer_fails_witness:
  "length (replicate 201 (0 :: byte)) < span ConfigInfoLayout
   \<and> length (replicate 201 (0 :: byte)) = span ConfigInfoLayout - 1
   \<and> length (replicate 63 (0 :: byte)) < 64
   \<and> decode ConfigInfoLayout (replicate 201 0) = Inl StructuralError
   \<and> Fees_fromBuffer (replicate 63 0) = Inl StructuralError"
  using decode_short_buffer_fails [of "replicate 201 0" ConfigInfoLayout "replicate 201 0" "replicate 63 0"]
  by (simp add: span_ConfigInfoLayout)

section \<open>Concrete encodings\<close>

text \<open>C3. Encoding the fee schedule with admin-trade, admin-withdraw and withdraw
  pairs 0/1000 and trade pair 1/4 (the \<open>DEFAULT_FEES\<close> of \<open>constants.ts\<close>) gives
  exactly 64 bytes; bytes 32 to 39 are the little-endian 64-bit encoding of 1, the trade
  fee numerator, and bytes 40 to 47 that of 4, the trade fee denominator.\<close>

theorem Fees_toBuffer_default:
  "\<exists>buf. Fees_toBuffer DEFAULT_FEES = Inr buf
     \<and> length buf = 64
     \<and> slice buf 32 40 = le_bytes 8 (tradeFeeNumerator DEFAULT_FEES)
     \<and> slice buf 40 48 = le_bytes 8 (tradeFeeDenominator DEFAULT_FEES)
     \<and> slice buf 32 40 = [1, 0, 0, 0, 0, 0, 0, 0]
     \<and> slice buf 40 48 = [4, 0, 0, 0, 0, 0, 0, 0]"
  by (simp add: Fees_toBuffer_def Struct_toBuffer_def IFees_object_def DEFAULT_FEES_def
      DEFAULT_FEE_NUMERATOR_def DEFAULT_FEE_DENOMINATOR_def field_defs buffer_defs
      fits_unsigned_def eval_nat_numeral)

text \<open>C2. The swap encoder of \<open>instructions.ts\<close> called with \<open>amountIn = 100000\<close>
  and \<open>minimumAmountOut = 0\<close> returns the payload made of the tag byte 1, the eight
  little-endian bytes of 100000 and the eight little-endian bytes of 0, 17 bytes in all,
  with nine account references in the order of the source, none of them a signer.\<close>

theorem swapInstruction_scenario:
  "\<exists>ins. swapInstruction tokenSwap authority userSource poolSource poolDestination
            userDestination adminDestination swapProgramId tokenProgramId 100000 0 = Inr ins
     \<and> ti_data ins = [1] @ le_bytes 8 100000 @ le_bytes 8 0
     \<and> ti_data ins = [1, 160, 134, 1, 0, 0, 0, 0, 0, 0, 0, 0, 0, 0, 0, 0, 0]
     \<and> length (ti_data ins) = 17
     \<and> length (ti_keys ins) = 9
     \<and> map pubkey (ti_keys ins) =
         [tokenSwap, authority, userSource, poolSource, poolDestination, userDestination,
          adminDestination, tokenProgramId, SYSVAR_CLOCK_PUBKEY]
     \<and> map isSigner (ti_keys ins) = replicate 9 False"
  by (simp add: swapInstruction_def NumberU64_toBuffer_def field_defs buffer_defs
      fits_unsigned_def eval_nat_numeral)

section \<open>Tags and payloads of the encoders\<close>

text \<open>C8. Every flag-only operation (stop-ramp, pause, unpause, set-fee-account,
  apply-pending-admin, commit-pending-admin and the farm's emergency-withdraw) has a
  payload of exactly one byte, the operation's tag, with no argument byte after it.\<close>

theorem flag_only_payloads:
  "(\<exists>ins. createStopRampInstruction swap1 auth1 admin1 prog1 = Inr ins
       \<and> ti_data ins = [word_of_int (AdminInstruction_code StopRamp)] \<and> ti_data ins = [101])
   \<and> (\<exists>ins. createPauseInstruction swap2 auth2 admin2 prog2 = Inr ins
       \<and> ti_data ins = [word_of_int (AdminInstruction_code Pause)] \<and> ti_data ins = [102])
   \<and> (\<exists>ins. createUnpauseInstruction swap3 auth3 admin3 prog3 = Inr ins
       \<and> ti_data ins = [word_of_int (AdminInstruction_code Unpause)] \<and> ti_data ins = [103])
   \<and> (\<exists>ins. createSetFeeAccountInstruction swap4 auth4 admin4 fee4 prog4 = Inr ins
       \<and> ti_data ins = [word_of_int (AdminInstruction_code SetFeeAccount)] \<and> ti_data ins = [104])
   \<and> (\<exists>ins. createApplyNewAdminInstruction swap5 auth5 admin5 prog5 = Inr ins
       \<and> ti_data ins = [word_of_int (AdminInstruction_code ApplyNewAdmin)] \<and> ti_data ins = [105])
   \<and> (\<exists>ins. createCommitNewAdminInstruction swap6 auth6 admin6 new6 prog6 = Inr ins
       \<and> ti_data ins = [word_of_int (AdminInstruction_code CommitNewAdmin)] \<and> ti_data ins = [106])
   \<and> (\<exists>ins. farmEmergencyWithdrawInstruction base7 farm7 auth7 fee7 pool7 user7 mint7
               dmint7 dacc7 prog7 tok7 = Inr ins
       \<and> ti_data ins = [33])"
  by (simp add: createStopRampInstruction_def createPauseInstruction_def
      createUnpauseInstruction_def createSetFeeAccountInstruction_def
      createApplyNewAdminInstruction_def createCommitNewAdminInstruction_def
      farmEmergencyWithdrawInstruction_def field_defs buffer_defs fits_unsigned_def)

section \<open>Signers of the admin family\<close>

text \<open>What the admin encoders put in their account list, whatever their payload: the
  list is built before the payload, and an encoder that returns an instruction returns
  this list.\<close>

lemma createAdminInitializeInstruction_keys:
  "createAdminInitializeInstruction config adminKey deltafiMint ampFactor fees rewards prog = Inr ins
   \<Longrightarrow> ti_keys ins =
        [\<lparr>pubkey = config, isSigner = True, isWritable = False\<rparr>,
         \<lparr>pubkey = adminKey, isSigner = True, isWritable = False\<rparr>,
         \<lparr>pubkey = deltafiMint, isSigner = False, isWritable = False\<rparr>]"
  by (auto simp add: createAdminInitializeInstruction_def Let_def ebind_def
      split: sum.splits prod.splits)

lemma createRampAInstruction_keys:
  "createRampAInstruction tokenSwap auth adminAccount targetAmp stopRampTimestamp prog = Inr ins
   \<Longrightarrow> ti_keys ins =
        [\<lparr>pubkey = tokenSwap, isSigner = True, isWritable = False\<rparr>,
         \<lparr>pubkey = auth, isSigner = False, isWritable = False\<rparr>,
         \<lparr>pubkey = adminAccount, isSigner = True, isWritable = False\<rparr>,
         \<lparr>pubkey = SYSVAR_CLOCK_PUBKEY, isSigner = False, isWritable = False\<rparr>]"
  by (auto simp add: createRampAInstruction_def Let_def ebind_def
      split: sum.splits prod.splits)

lemma createSetNewFeesInstruction_keys:
  "createSetNewFeesInstruction tokenSwapAccount auth adminAccount newFees prog = Inr ins
   \<Longrightarrow> ti_keys ins =
        [\<lparr>pubkey = publicKey tokenSwapAccount, isSigner = True, isWritable = False\<rparr>,
         \<lparr>pubkey = auth, isSigner = False, isWritable = False\<rparr>,
         \<lparr>pubkey = adminAccount, isSigner = True, isWritable = False\<rparr>]"
  by (auto simp add: createSetNewFeesInstruction_def Let_def ebind_def
      split: sum.splits prod.splits)

lemma createSetNewRewardsInstruction_keys:
  "createSetNewRewardsInstruction tokenSwapAccount auth adminAccount newRewards prog = Inr ins
   \<Longrightarrow> ti_keys ins =
        [\<lparr>pubkey = publicKey tokenSwapAccount, isSigner = True, isWritable = False\<rparr>,
         \<lparr>pubkey = auth, isSigner = False, isWritable = False\<rparr>,
         \<lparr>pubkey = adminAccount, isSigner = True, isWritable = False\<rparr>]"
  by (auto simp add: createSetNewRewardsInstruction_def Let_def ebind_def
      split: sum.splits prod.splits)

text \<open>C10. In the account list of every admin encoder exactly two entries are signers:
  the first entry, which is the config or token-swap account, and the entry of the admin
  account; every other entry is not a signer. The six encoders without numeric arguments
  always return; the other four (initialize, ramp, set-fees, set-rewards) may refuse their
  numbers, and the statement is about the instruction they return.\<close>

theorem admin_signers:
  "(createAdminInitializeInstruction config0 adminKey0 mint0 amp0 fees0 rewards0 prog0 = Inr ins0
      \<longrightarrow> map isSigner (ti_keys ins0) = [True, True, False]
        \<and> map pubkey (filter isSigner (ti_keys ins0)) = [config0, adminKey0])
   \<and> (createRampAInstruction swap1 auth1 admin1 amp1 stop1 prog1 = Inr ins1
      \<longrightarrow> map isSigner (ti_keys ins1) = [True, False, True, False]
        \<and> map pubkey (filter isSigner (ti_keys ins1)) = [swap1, admin1])
   \<and> (\<exists>ins. createStopRampInstruction swap2 auth2 admin2 prog2 = Inr ins
        \<and> map isSigner (ti_keys ins) = [True, False, True, False]
        \<and> map pubkey (filter isSigner (ti_keys ins)) = [publicKey swap2, admin2])
   \<and> (\<exists>ins. createPauseInstruction swap3 auth3 admin3 prog3 = Inr ins
        \<and> map isSigner (ti_keys ins) = [True, False, True]
        \<and> map pubkey (filter isSigner (ti_keys ins)) = [publicKey swap3, admin3])
   \<and> (\<exists>ins. createUnpauseInstruction swap4 auth4 admin4 prog4 = Inr ins
        \<and> map isSigner (ti_keys ins) = [True, False, True]
        \<and> map pubkey (filter isSigner (ti_keys ins)) = [publicKey swap4, admin4])
   \<and> (\<exists>ins. createSetFeeAccountInstruction swap5 auth5 admin5 fee5 prog5 = Inr ins
        \<and> map isSigner (ti_keys ins) = [True, False, True, False]
        \<and> map pubkey (filter isSigner (ti_keys ins)) = [publicKey swap5, admin5])
   \<and> (\<exists>ins. createApplyNewAdminInstruction swap6 auth6 admin6 prog6 = Inr ins
        \<and> map isSigner (ti_keys ins) = [True, False, True, False]
        \<and> map pubkey (filter isSigner (ti_keys ins)) = [publicKey swap6, admin6])
   \<and> (\<exists>ins. createCommitNewAdminInstruction swap7 auth7 admin7 new7 prog7 = Inr ins
        \<and> map isSigner (ti_keys ins) = [True, False, True, False, False]
        \<and> map pubkey (filter isSigner (ti_keys ins)) = [publicKey swap7, admin7])
   \<and> (createSetNewFeesInstruction swap8 auth8 admin8 fees8 prog8 = Inr ins8
      \<longrightarrow> map isSigner (ti_keys ins8) = [True, False, True]
        \<and> map pubkey (filter isSigner (ti_keys ins8)) = [publicKey swap8, admin8])
   \<and> (createSetNewRewardsInstruction swap9 auth9 admin9 rewards9 prog9 = Inr ins9
      \<longrightarrow> map isSigner (ti_keys ins9) = [True, False, True]
        \<and> map pubkey (filter isSigner (ti_keys ins9)) = [publicKey swap9, admin9])"
proof (intro conjI impI)
  assume "createAdminInitializeInstruction config0 adminKey0 mint0 amp0 fees0 rewards0 prog0 = Inr ins0"
  note k = createAdminInitializeInstruction_keys [OF this]
  show "map isSigner (ti_keys ins0) = [True, True, False]"
    and "map pubkey (filter isSigner (ti_keys ins0)) = [config0, adminKey0]"
    by (simp_all add: k)
next
  assume "createRampAInstruction swap1 auth1 admin1 amp1 stop1 prog1 = Inr ins1"
  note k = createRampAInstruction_keys [OF this]
  show "map isSigner (ti_keys ins1) = [True, False, True, False]"
    and "map pubkey (filter isSigner (ti_keys ins1)) = [swap1, admin1]"
    by (simp_all add: k)
next
  assume "createSetNewFeesInstruction swap8 auth8 admin8 fees8 prog8 = Inr ins8"
  note k = createSetNewFeesInstruction_keys [OF this]
  show "map isSigner (ti_keys ins8) = [True, False, True]"
    and "map pubkey (filter isSigner (ti_keys ins8)) = [publicKey swap8, admin8]"
    by (simp_all add: k)
next
  assume "createSetNewRewardsInstruction swap9 auth9 admin9 rewards9 prog9 = Inr ins9"
  note k = createSetNewRewardsInstruction_keys [OF this]
  show "map isSigner (ti_keys ins9) = [True, False, True]"
    and "map pubkey (filter isSigner (ti_keys ins9)) = [publicKey swap9, admin9]"
    by (simp_all add: k)
qed (simp_all add: createStopRampInstruction_def createPauseInstruction_def
      createUnpauseInstruction_def createSetFeeAccountInstruction_def
      createApplyNewAdminInstruction_def createCommitNewAdminInstruction_def
      field_defs buffer_defs fits_unsigned_def)

lemma Fees_toBuffer_DEFAULT_FEES: "\<exists>buf. Fees_toBuffer DEFAULT_FEES = Inr buf \<and> length buf = 64"
  by (simp add: Fees_toBuffer_def Struct_toBuffer_def IFees_object_def DEFAULT_FEES_def
      DEFAULT_FEE_NUMERATOR_def DEFAULT_FEE_DENOMINATOR_def field_defs buffer_defs
      fits_unsigned_def)

lemma Rewards_toBuffer_DEFAULT_REWARDS:
  "\<exists>buf. Rewards_toBuffer DEFAULT_REWARDS = Inr buf \<and> length buf = 24"
  by (simp add: Rewards_toBuffer_def Struct_toBuffer_def IRewards_object_def
      DEFAULT_REWARDS_def field_defs buffer_defs fits_unsigned_def)

theorem admin_signers_witness:
  "\<exists>i0 i1 i8 i9.
     createAdminInitializeInstruction (PublicKey ''config'') (PublicKey ''admin'')
       (PublicKey ''mint'') 100 DEFAULT_FEES DEFAULT_REWARDS (PublicKey ''program'') = Inr i0
     \<and> map isSigner (ti_keys i0) = [True, True, False]
     \<and> map pubkey (filter isSigner (ti_keys i0)) = [PublicKey ''config'', PublicKey ''admin'']
     \<and> createRampAInstruction (PublicKey ''swap'') (PublicKey ''authority'')
         (PublicKey ''admin'') 200 1700000000 (PublicKey ''program'') = Inr i1
     \<and> map isSigner (ti_keys i1) = [True, False, True, False]
     \<and> map pubkey (filter isSigner (ti_keys i1)) = [PublicKey ''swap'', PublicKey ''admin'']
     \<and> createSetNewFeesInstruction \<lparr>publicKey = PublicKey ''swap''\<rparr> (PublicKey ''authority'')
         (PublicKey ''admin'') DEFAULT_FEES (PublicKey ''program'') = Inr i8
     \<and> map isSigner (ti_keys i8) = [True, False, True]
     \<and> map pubkey (filter isSigner (ti_keys i8)) = [PublicKey ''swap'', PublicKey ''admin'']
     \<and> createSetNewRewardsInstruction \<lparr>publicKey = PublicKey ''swap''\<rparr> (PublicKey ''authority'')
         (PublicKey ''admin'') DEFAULT_REWARDS (PublicKey ''program'') = Inr i9
     \<and> map isSigner (ti_keys i9) = [True, False, True]
     \<and> map pubkey (filter isSigner (ti_keys i9)) = [PublicKey ''swap'', PublicKey ''admin'']"
proof -
  obtain fb where fb: "Fees_toBuffer DEFAULT_FEES = Inr fb" "length fb = 64"
    using Fees_toBuffer_DEFAULT_FEES by blast
  obtain rb where rb: "Rewards_toBuffer DEFAULT_REWARDS = Inr rb" "length rb = 24"
    using Rewards_toBuffer_DEFAULT_REWARDS by blast
  obtain i0 where i0:
    "createAdminInitializeInstruction (PublicKey ''config'') (PublicKey ''admin'')
       (PublicKey ''mint'') 100 DEFAULT_FEES DEFAULT_REWARDS (PublicKey ''program'') = Inr i0"
    by (simp add: createAdminInitializeInstruction_def NumberU64_toBuffer_def fb rb
        field_defs buffer_defs fits_unsigned_def)
  obtain i1 where i1:
    "createRampAInstruction (PublicKey ''swap'') (PublicKey ''authority'')
       (PublicKey ''admin'') 200 1700000000 (PublicKey ''program'') = Inr i1"
    by (simp add: createRampAInstruction_def NumberU64_toBuffer_def
        field_defs buffer_defs fits_unsigned_def)
  obtain i8 where i8:
    "createSetNewFeesInstruction \<lparr>publicKey = PublicKey ''swap''\<rparr> (PublicKey ''authority'')
       (PublicKey ''admin'') DEFAULT_FEES (PublicKey ''program'') = Inr i8"
    by (simp add: createSetNewFeesInstruction_def fb field_defs buffer_defs fits_unsigned_def)
  obtain i9 where i9:
    "createSetNewRewardsInstruction \<lparr>publicKey = PublicKey ''swap''\<rparr> (PublicKey ''authority'')
       (PublicKey ''admin'') DEFAULT_REWARDS (PublicKey ''program'') = Inr i9"
    by (simp add: createSetNewRewardsInstruction_def rb field_defs buffer_defs fits_unsigned_def)
  note s = admin_signers [where ?ins0.0 = i0 and ?ins1.0 = i1 and ?ins8.0 = i8 and ?ins9.0 = i9
      and ?config0.0 = "PublicKey ''config''" and ?adminKey0.0 = "PublicKey ''admin''"
      and ?mint0.0 = "PublicKey ''mint''" and ?amp0.0 = 100 and ?fees0.0 = DEFAULT_FEES
      and ?rewards0.0 = DEFAULT_REWARDS and ?prog0.0 = "PublicKey ''program''"
      and ?swap1.0 = "PublicKey ''swap''" and ?auth1.0 = "PublicKey ''authority''"
      and ?admin1.0 = "PublicKey ''admin''" and ?amp1.0 = 200 and ?stop1.0 = 1700000000
      and ?prog1.0 = "PublicKey ''program''"
      and ?swap8.0 = "\<lparr>publicKey = PublicKey ''swap''\<rparr>" and ?auth8.0 = "PublicKey ''authority''"
      and ?admin8.0 = "PublicKey ''admin''" and ?fees8.0 = DEFAULT_FEES
      and ?prog8.0 = "PublicKey ''program''"
      and ?swap9.0 = "\<lparr>publicKey = PublicKey ''swap''\<rparr>" and ?auth9.0 = "PublicKey ''authority''"
      and ?admin9.0 = "PublicKey ''admin''" and ?rewards9.0 = DEFAULT_REWARDS
      and ?prog9.0 = "PublicKey ''program''"]
  from s i0 i1 i8 i9 show ?thesis by simp
qed

section \<open>Where the encoders depart from their declarations\<close>

text \<open>C1. No two encoders of one target program should emit the same leading tag byte,
  and the enumeration declares the tags 107 for set-fees and 108 for set-rewards. The
  set-fees and the set-rewards encoder nevertheless write the tag of commit-pending-admin:
  all three payloads start with the byte 106. Evaluated here at the default fees and
  rewards.\<close>

theorem admin_tags_collide:
  "\<exists>fees_ins rewards_ins commit_ins.
     createSetNewFeesInstruction \<lparr>publicKey = PublicKey ''swap''\<rparr> (PublicKey ''authority'')
       (PublicKey ''admin'') DEFAULT_FEES (PublicKey ''program'') = Inr fees_ins
     \<and> createSetNewRewardsInstruction \<lparr>publicKey = PublicKey ''swap''\<rparr> (PublicKey ''authority'')
       (PublicKey ''admin'') DEFAULT_REWARDS (PublicKey ''program'') = Inr rewards_ins
     \<and> createCommitNewAdminInstruction \<lparr>publicKey = PublicKey ''swap''\<rparr> (PublicKey ''authority'')
       (PublicKey ''admin'') (PublicKey ''newAdmin'') (PublicKey ''program'') = Inr commit_ins
     \<and> take 1 (ti_data fees_ins) = [106]
     \<and> take 1 (ti_data rewards_ins) = [106]
     \<and> take 1 (ti_data commit_ins) = [106]
     \<and> length (ti_data fees_ins) = 65
     \<and> length (ti_data rewards_ins) = 25
     \<and> AdminInstruction_code CommitNewAdmin = 106
     \<and> AdminInstruction_code SetNewFees = 107
     \<and> AdminInstruction_code SetNewRewards = 108"
proof -
  obtain fb where fb: "Fees_toBuffer DEFAULT_FEES = Inr fb" "length fb = 64"
    using Fees_toBuffer_DEFAULT_FEES by blast
  obtain rb where rb: "Rewards_toBuffer DEFAULT_REWARDS = Inr rb" "length rb = 24"
    using Rewards_toBuffer_DEFAULT_REWARDS by blast
  show ?thesis
    by (simp add: createSetNewFeesInstruction_def createSetNewRewardsInstruction_def
        createCommitNewAdminInstruction_def fb rb field_defs buffer_defs fits_unsigned_def)
qed

text \<open>C9. The withdraw-single-asset encoder should emit the tag 4, then the eight
  little-endian bytes of \<open>poolTokenAmount\<close>, then those of \<open>minimumTokenAmount\<close>. Its
  layout names the last field \<open>minimumTokenAmount\<close>, but the object it encodes carries
  the value under \<open>minimumTokenA\<close>, so the field is never written: for
  \<open>poolTokenAmount = 1000\<close> and \<open>minimumTokenAmount = 5\<close> the last eight bytes are
  zero.\<close>

theorem withdrawOne_drops_minimum:
  "\<exists>ins.
     createWithdrawOneInstruction (PublicKey ''swap'') (PublicKey ''authority'')
       (PublicKey ''poolMint'') (PublicKey ''sourcePool'') (PublicKey ''base'')
       (PublicKey ''quote'') (PublicKey ''userDestination'') (PublicKey ''adminDestination'')
       (PublicKey ''tokenProgram'') 1000 5 (PublicKey ''program'') = Inr ins
     \<and> ti_data ins = [4] @ le_bytes 8 1000 @ replicate 8 0
     \<and> ti_data ins = [4, 232, 3, 0, 0, 0, 0, 0, 0, 0, 0, 0, 0, 0, 0, 0, 0]
     \<and> ti_data ins \<noteq> [4] @ le_bytes 8 1000 @ le_bytes 8 5
     \<and> le_bytes 8 5 = [5, 0, 0, 0, 0, 0, 0, 0]"
  by (simp add: createWithdrawOneInstruction_def NumberU64_toBuffer_def field_defs buffer_defs
      fits_unsigned_def le_bytes_8 replicate_8)

section \<open>The initialization gate of the farm loader\<close>

text \<open>C7. When the account's bytes are well formed for the farm layout, that is, they
  decode, and the decoded \<open>isInitialized\<close> flag is zero, \<open>Farm.loadFarm\<close> fails with
  the \<open>UninitializedError\<close> and returns no farm. This holds for whatever layout stands
  for \<open>layout.FarmLayout\<close>.\<close>

theorem loadFarm_uninitialized:
  "decode farmLayout bytes = Inr farmData
   \<Longrightarrow> property farmData ''isInitialized'' = Some (Num 0)
   \<Longrightarrow> loadFarm (Inr bytes) farmLayout findProgramAddress address prog = Inl UninitializedError"
  by (simp add: loadFarm_def)

lemma span_FarmLayout: "span FarmLayout = 395"
  by (simp add: FarmLayout_def field_defs)

theorem loadFarm_uninitialized_witness:
  "\<exists>farmData.
     decode FarmLayout (replicate 395 0) = Inr farmData
     \<and> property farmData ''isInitialized'' = Some (Num 0)
     \<and> loadFarm (Inr (replicate 395 0)) FarmLayout (\<lambda>address prog. address)
         (PublicKey ''farm'') (PublicKey ''program'') = Inl UninitializedError"
proof -
  obtain farmData where d: "decode FarmLayout (replicate 395 0) = Inr farmData"
    and p: "property farmData ''isInitialized'' = Some (Num 0)"
    by (simp add: FarmLayout_def field_defs)
  from loadFarm_uninitialized [OF d p] d p show ?thesis by blast
qed

section \<open>Numbers that do not fit\<close>

lemma Fees_toBuffer_overflow: "\<not> fees_fit f \<Longrightarrow> Fees_toBuffer f = Inl WidthOverflowError"
  by (auto simp add: fees_fit_def Fees_toBuffer_def Struct_toBuffer_def IFees_object_def
      field_defs buffer_defs)

lemma Fees_toBuffer_fits: "fees_fit f \<Longrightarrow> \<exists>b. Fees_toBuffer f = Inr b \<and> length b = 64"
  by (simp add: fees_fit_def Fees_toBuffer_def Struct_toBuffer_def IFees_object_def
      field_defs buffer_defs)

lemma Rewards_toBuffer_overflow:
  "\<not> rewards_fit r \<Longrightarrow> Rewards_toBuffer r = Inl WidthOverflowError"
  by (auto simp add: rewards_fit_def Rewards_toBuffer_def Struct_toBuffer_def
      IRewards_object_def field_defs buffer_defs)

lemma Rewards_toBuffer_fits:
  "rewards_fit r \<Longrightarrow> \<exists>b. Rewards_toBuffer r = Inr b \<and> length b = 24"
  by (simp add: rewards_fit_def Rewards_toBuffer_def Struct_toBuffer_def IRewards_object_def
      field_defs buffer_defs)

text \<open>One lemma for each encoder that takes numbers: when one of them does not fit its
  field, the encoder fails, either while the object to encode is built (the
  \<open>toBuffer\<close> calls) or in the layout's encoder (the \<open>nonce\<close> byte, the plain number of
  the farm withdrawal).\<close>

lemma createAdminInitializeInstruction_overflow:
  assumes "\<not> (fits_unsigned 8 ampFactor
             \<and> fees_fit fees
             \<and> rewards_fit rewards)"
  shows "createAdminInitializeInstruction config adminKey deltafiMint ampFactor fees rewards programId = Inl WidthOverflowError"
proof -
  note defs = createAdminInitializeInstruction_def NumberU64_toBuffer_def
  show ?thesis
  proof (cases "fees_fit fees")
    case False
    then show ?thesis
      by (auto simp add: defs Fees_toBuffer_overflow)
  next
    case ffit: True
    then obtain fb where fb: "Fees_toBuffer fees = Inr fb" "length fb = 64"
      using Fees_toBuffer_fits by blast
    show ?thesis
    proof (cases "rewards_fit rewards")
      case False
      then show ?thesis
        using ffit fb
        by (auto simp add: defs Rewards_toBuffer_overflow)
    next
      case rfit: True
      then obtain rb where rb: "Rewards_toBuffer rewards = Inr rb" "length rb = 24"
        using Rewards_toBuffer_fits by blast
      from assms ffit fb rfit rb show ?thesis
        by (auto simp add: defs fb rb field_defs buffer_defs)
    qed
  qed
qed

lemma createRampAInstruction_overflow:
  assumes "\<not> (fits_unsigned 8 targetAmp \<and> fits_unsigned 8 stopRampTimestamp)"
  shows "createRampAInstruction tokenSwap authority adminAccount targetAmp stopRampTimestamp programId = Inl WidthOverflowError"
  using assms
  by (auto simp add: createRampAInstruction_def NumberU64_toBuffer_def fees_fit_def field_defs buffer_defs)

lemma createSetNewFeesInstruction_overflow:
  assumes "\<not> (fees_fit newFees)"
  shows "createSetNewFeesInstruction tokenSwapAccount authority adminAccount newFees programId = Inl WidthOverflowError"
proof -
  note defs = createSetNewFeesInstruction_def NumberU64_toBuffer_def
  show ?thesis
  proof (cases "fees_fit newFees")
    case False
    then show ?thesis
      by (auto simp add: defs Fees_toBuffer_overflow)
  next
    case ffit: True
    then obtain fb where fb: "Fees_toBuffer newFees = Inr fb" "length fb = 64"
      using Fees_toBuffer_fits by blast
    from assms ffit fb show ?thesis
      by (auto simp add: defs fb field_defs buffer_defs)
  qed
qed

lemma createSetNewRewardsInstruction_overflow:
  assumes "\<not> (rewards_fit newRewards)"
  shows "createSetNewRewardsInstruction tokenSwapAccount authority adminAccount newRewards programId = Inl WidthOverflowError"
proof -
  note defs = createSetNewRewardsInstruction_def NumberU64_toBuffer_def
  show ?thesis
  proof (cases "rewards_fit newRewards")
    case False
    then show ?thesis
      by (auto simp add: defs Rewards_toBuffer_overflow)
  next
    case rfit: True
    then obtain rb where rb: "Rewards_toBuffer newRewards = Inr rb" "length rb = 24"
      using Rewards_toBuffer_fits by blast
    from assms rfit rb show ?thesis
      by (auto simp add: defs rb field_defs buffer_defs)
  qed
qed

lemma createInitSwapInstruction_overflow:
  assumes "\<not> (fits_unsigned 1 nonce
             \<and> fits_unsigned 8 ampFactor
             \<and> fees_fit fees
             \<and> rewards_fit rewards
             \<and> fits_unsigned 8 k
             \<and> fits_unsigned 8 i
             \<and> fits_unsigned 8 isOpenTwap)"
  shows "createInitSwapInstruction tokenSwap authority adminAccount adminFeeAccountA adminFeeAccountB tokenMintA tokenAccountA tokenMintB tokenAccountB poolTokenMint poolTokenAccount rewardTokenAccount rewardMint tokenProgramId nonce ampFactor fees rewards k i isOpenTwap programId = Inl WidthOverflowError"
proof -
  note defs = createInitSwapInstruction_def NumberU64_toBuffer_def
  show ?thesis
  proof (cases "fees_fit fees")
    case False
    then show ?thesis
      by (auto simp add: defs Fees_toBuffer_overflow)
  next
    case ffit: True
    then obtain fb where fb: "Fees_toBuffer fees = Inr fb" "length fb = 64"
      using Fees_toBuffer_fits by blast
    show ?thesis
    proof (cases "rewards_fit rewards")
      case False
      then show ?thesis
        using ffit fb
        by (auto simp add: defs Rewards_toBuffer_overflow)
    next
      case rfit: True
      then obtain rb where rb: "Rewards_toBuffer rewards = Inr rb" "length rb = 24"
        using Rewards_toBuffer_fits by blast
      from assms ffit fb rfit rb show ?thesis
        by (auto simp add: defs fb rb field_defs buffer_defs)
    qed
  qed
qed

lemma createSwapInstruction_overflow:
  assumes "\<not> (fits_unsigned 8 amountIn
             \<and> fits_unsigned 8 minimumAmountOut
             \<and> fits_unsigned 8 swapDirection)"
  shows "createSwapInstruction tokenSwap authority userSource poolSource poolDestination userDestination adminDestination rewardDestination rewardMint tokenProgramId amountIn minimumAmountOut swapDirection programId = Inl WidthOverflowError"
  using assms
  by (auto simp add: createSwapInstruction_def NumberU64_toBuffer_def fees_fit_def field_defs buffer_defs)

lemma createDepositInstruction_overflow:
  assumes "\<not> (fits_unsigned 8 tokenAmountA
             \<and> fits_unsigned 8 tokenAmountB
             \<and> fits_unsigned 8 minimumPoolTokenAmount)"
  shows "createDepositInstruction tokenSwap authority sourceA sourceB intoA intoB poolTokenMint poolTokenAccount tokenProgramId tokenAmountA tokenAmountB minimumPoolTokenAmount programId = Inl WidthOverflowError"
  using assms
  by (auto simp add: createDepositInstruction_def NumberU64_toBuffer_def fees_fit_def field_defs buffer_defs)

lemma createWithdrawInstruction_overflow:
  assumes "\<not> (fits_unsigned 8 poolTokenAmount
             \<and> fits_unsigned 8 minimumTokenA
             \<and> fits_unsigned 8 minimumTokenB)"
  shows "createWithdrawInstruction tokenSwap authority poolMint sourcePoolAccount fromA fromB userAccountA userAccountB adminFeeAccountA adminFeeAccountB tokenProgramId poolTokenAmount minimumTokenA minimumTokenB programId = Inl WidthOverflowError"
  using assms
  by (auto simp add: createWithdrawInstruction_def NumberU64_toBuffer_def fees_fit_def field_defs buffer_defs)

lemma createWithdrawOneInstruction_overflow:
  assumes "\<not> (fits_unsigned 8 poolTokenAmount
             \<and> fits_unsigned 8 minimumTokenAmount)"
  shows "createWithdrawOneInstruction tokenSwap authority poolMint sourcePool base quote userDestination adminDestination tokenProgramId poolTokenAmount minimumTokenAmount programId = Inl WidthOverflowError"
  using assms
  by (auto simp add: createWithdrawOneInstruction_def NumberU64_toBuffer_def fees_fit_def field_defs buffer_defs)

lemma instructions_createInitSwapInstruction_overflow:
  assumes "\<not> (fits_unsigned 1 nonce
             \<and> fits_unsigned 8 ampFactor
             \<and> fees_fit fees)"
  shows "instructions_createInitSwapInstruction tokenSwapAccount authority adminAccount adminFeeAccountA adminFeeAccountB tokenMintA tokenAccountA tokenMintB tokenAccountB poolTokenMint poolTokenAccount swapProgramId tokenProgramId nonce ampFactor fees = Inl WidthOverflowError"
  using assms
  by (auto simp add: instructions_createInitSwapInstruction_def NumberU64_toBuffer_def fees_fit_def field_defs buffer_defs)

lemma swapInstruction_overflow:
  assumes "\<not> (fits_unsigned 8 amountIn \<and> fits_unsigned 8 minimumAmountOut)"
  shows "swapInstruction tokenSwap authority userSource poolSource poolDestination userDestination adminDestination swapProgramId tokenProgramId amountIn minimumAmountOut = Inl WidthOverflowError"
  using assms
  by (auto simp add: swapInstruction_def NumberU64_toBuffer_def fees_fit_def field_defs buffer_defs)

lemma depositInstruction_overflow:
  assumes "\<not> (fits_unsigned 8 tokenAmountA
             \<and> fits_unsigned 8 tokenAmountB
             \<and> fits_unsigned 8 minimumPoolTokenAmount)"
  shows "depositInstruction tokenSwap authority sourceA sourceB intoA intoB poolTokenMint poolTokenAccount swapProgramId tokenProgramId tokenAmountA tokenAmountB minimumPoolTokenAmount = Inl WidthOverflowError"
  using assms
  by (auto simp add: depositInstruction_def NumberU64_toBuffer_def fees_fit_def field_defs buffer_defs)

lemma withdrawInstruction_overflow:
  assumes "\<not> (fits_unsigned 8 poolTokenAmount
             \<and> fits_unsigned 8 minimumTokenA
             \<and> fits_unsigned 8 minimumTokenB)"
  shows "withdrawInstruction tokenSwap authority poolMint sourcePoolAccount fromA fromB userAccountA userAccountB adminFeeAccountA adminFeeAccountB swapProgramId tokenProgramId poolTokenAmount minimumTokenA minimumTokenB = Inl WidthOverflowError"
  using assms
  by (auto simp add: withdrawInstruction_def NumberU64_toBuffer_def fees_fit_def field_defs buffer_defs)

lemma createInitFarmInstruction_overflow:
  assumes "\<not> (fits_unsigned 1 nonce \<and> fees_fit fees)"
  shows "createInitFarmInstruction farmAccount farmBaseAccount authority adminAccount adminFeeAccountPool tokenMintPool tokenAccountPool deltafiTokenMint deltafiTokenAccount farmProgramId tokenProgramId nonce fees = Inl WidthOverflowError"
  using assms
  by (auto simp add: createInitFarmInstruction_def NumberU64_toBuffer_def fees_fit_def field_defs buffer_defs)

lemma farmDepositInstruction_overflow:
  assumes "\<not> (fits_unsigned 8 tokenAmountPool)"
  shows "farmDepositInstruction farmBaseAccount farmAccount authority adminFeeAccountDeltafi sourcePool userFarming farmPool deltafiTokenMint destDeltafi farmProgramId tokenProgramId tokenAmountPool = Inl WidthOverflowError"
  using assms
  by (auto simp add: farmDepositInstruction_def NumberU64_toBuffer_def fees_fit_def field_defs buffer_defs)

lemma farmWithdrawInstruction_overflow:
  assumes "\<not> (fits_unsigned 8 tokenAmountPool)"
  shows "farmWithdrawInstruction farmBaseAccount farmAccount authority adminFeeAccountDeltafi userPoolAccount userFarming tokenMintPool deltafiTokenMint deltafiTokenAccount farmProgramId tokenProgramId tokenAmountPool = Inl WidthOverflowError"
  using assms
  by (auto simp add: farmWithdrawInstruction_def NumberU64_toBuffer_def fees_fit_def field_defs buffer_defs)

lemma farmPrintPendingDeltafiInstruction_overflow:
  assumes "\<not> (fits_unsigned 1 nonce \<and> fees_fit fees)"
  shows "farmPrintPendingDeltafiInstruction farmAccount authority adminAccount adminFeeAccountPool tokenMintPool tokenAccountPool deltafiTokenMint deltafiTokenAccount farmProgramId tokenProgramId nonce fees = Inl WidthOverflowError"
  using assms
  by (auto simp add: farmPrintPendingDeltafiInstruction_def NumberU64_toBuffer_def fees_fit_def field_defs buffer_defs)

text \<open>C6. For every instruction encoder with numeric arguments, an argument that is
  negative or does not fit the width of its field (64 bits unsigned; 8 bits for
  \<open>nonce\<close>) makes the encoder fail with \<open>WidthOverflowError\<close>: no payload is
  returned, so no value is truncated or wrapped into one. Fee and reward schedules count
  field by field.\<close>

theorem numeric_overflow_fails_at_encode:
  "(\<forall>config adminKey deltafiMint ampFactor fees rewards programId.
        \<not> (fits_unsigned 8 ampFactor
             \<and> fees_fit fees
             \<and> rewards_fit rewards)
        \<longrightarrow> createAdminInitializeInstruction config adminKey deltafiMint ampFactor fees rewards
              programId
            = Inl WidthOverflowError)
   \<and> (\<forall>tokenSwap authority adminAccount targetAmp stopRampTimestamp programId.
        \<not> (fits_unsigned 8 targetAmp \<and> fits_unsigned 8 stopRampTimestamp)
        \<longrightarrow> createRampAInstruction tokenSwap authority adminAccount targetAmp stopRampTimestamp
              programId
            = Inl WidthOverflowError)
   \<and> (\<forall>tokenSwapAccount authority adminAccount newFees programId.
        \<not> (fees_fit newFees)
        \<longrightarrow> createSetNewFeesInstruction tokenSwapAccount authority adminAccount newFees programId
            = Inl WidthOverflowError)
   \<and> (\<forall>tokenSwapAccount authority adminAccount newRewards programId.
        \<not> (rewards_fit newRewards)
        \<longrightarrow> createSetNewRewardsInstruction tokenSwapAccount authority adminAccount newRewards programId
            = Inl WidthOverflowError)
   \<and> (\<forall>tokenSwap authority adminAccount adminFeeAccountA adminFeeAccountB tokenMintA
        tokenAccountA tokenMintB tokenAccountB poolTokenMint poolTokenAccount
        rewardTokenAccount rewardMint tokenProgramId nonce ampFactor fees rewards k i
        isOpenTwap programId.
        \<not> (fits_unsigned 1 nonce
             \<and> fits_unsigned 8 ampFactor
             \<and> fees_fit fees
             \<and> rewards_fit rewards
             \<and> fits_unsigned 8 k
             \<and> fits_unsigned 8 i
             \<and> fits_unsigned 8 isOpenTwap)
        \<longrightarrow> createInitSwapInstruction tokenSwap authority adminAccount adminFeeAccountA adminFeeAccountB
              tokenMintA tokenAccountA tokenMintB tokenAccountB poolTokenMint
              poolTokenAccount rewardTokenAccount rewardMint tokenProgramId nonce ampFactor
              fees rewards k i isOpenTwap programId
            = Inl WidthOverflowError)
   \<and> (\<forall>tokenSwap authority userSource poolSource poolDestination userDestination
        adminDestination rewardDestination rewardMint tokenProgramId amountIn
        minimumAmountOut swapDirection programId.
        \<not> (fits_unsigned 8 amountIn
             \<and> fits_unsigned 8 minimumAmountOut
             \<and> fits_unsigned 8 swapDirection)
        \<longrightarrow> createSwapInstruction tokenSwap authority userSource poolSource poolDestination
              userDestination adminDestination rewardDestination rewardMint tokenProgramId
              amountIn minimumAmountOut swapDirection programId
            = Inl WidthOverflowError)
   \<and> (\<forall>tokenSwap authority sourceA sourceB intoA intoB poolTokenMint poolTokenAccount
        tokenProgramId tokenAmountA tokenAmountB minimumPoolTokenAmount programId.
        \<not> (fits_unsigned 8 tokenAmountA
             \<and> fits_unsigned 8 tokenAmountB
             \<and> fits_unsigned 8 minimumPoolTokenAmount)
        \<longrightarrow> createDepositInstruction tokenSwap authority sourceA sourceB intoA intoB poolTokenMint
              poolTokenAccount tokenProgramId tokenAmountA tokenAmountB
              minimumPoolTokenAmount programId
            = Inl WidthOverflowError)
   \<and> (\<forall>tokenSwap authority poolMint sourcePoolAccount fromA fromB userAccountA
        userAccountB adminFeeAccountA adminFeeAccountB tokenProgramId poolTokenAmount
        minimumTokenA minimumTokenB programId.
        \<not> (fits_unsigned 8 poolTokenAmount
             \<and> fits_unsigned 8 minimumTokenA
             \<and> fits_unsigned 8 minimumTokenB)
        \<longrightarrow> createWithdrawInstruction tokenSwap authority poolMint sourcePoolAccount fromA fromB
              userAccountA userAccountB adminFeeAccountA adminFeeAccountB tokenProgramId
              poolTokenAmount minimumTokenA minimumTokenB programId
            = Inl WidthOverflowError)
   \<and> (\<forall>tokenSwap authority poolMint sourcePool base quote userDestination adminDestination
        tokenProgramId poolTokenAmount minimumTokenAmount programId.
        \<not> (fits_unsigned 8 poolTokenAmount
             \<and> fits_unsigned 8 minimumTokenAmount)
        \<longrightarrow> createWithdrawOneInstruction tokenSwap authority poolMint sourcePool base quote
              userDestination adminDestination tokenProgramId poolTokenAmount
              minimumTokenAmount programId
            = Inl WidthOverflowError)
   \<and> (\<forall>tokenSwapAccount authority adminAccount adminFeeAccountA adminFeeAccountB
        tokenMintA tokenAccountA tokenMintB tokenAccountB poolTokenMint poolTokenAccount
        swapProgramId tokenProgramId nonce ampFactor fees.
        \<not> (fits_unsigned 1 nonce
             \<and> fits_unsigned 8 ampFactor
             \<and> fees_fit fees)
        \<longrightarrow> instructions_createInitSwapInstruction tokenSwapAccount authority adminAccount
              adminFeeAccountA adminFeeAccountB tokenMintA tokenAccountA tokenMintB
              tokenAccountB poolTokenMint poolTokenAccount swapProgramId tokenProgramId
              nonce ampFactor fees
            = Inl WidthOverflowError)
   \<and> (\<forall>tokenSwap authority userSource poolSource poolDestination userDestination
        adminDestination swapProgramId tokenProgramId amountIn minimumAmountOut.
        \<not> (fits_unsigned 8 amountIn \<and> fits_unsigned 8 minimumAmountOut)
        \<longrightarrow> swapInstruction tokenSwap authority userSource poolSource poolDestination userDestination
              adminDestination swapProgramId tokenProgramId amountIn minimumAmountOut
            = Inl WidthOverflowError)
   \<and> (\<forall>tokenSwap authority sourceA sourceB intoA intoB poolTokenMint poolTokenAccount
        swapProgramId tokenProgramId tokenAmountA tokenAmountB minimumPoolTokenAmount.
        \<not> (fits_unsigned 8 tokenAmountA
             \<and> fits_unsigned 8 tokenAmountB
             \<and> fits_unsigned 8 minimumPoolTokenAmount)
        \<longrightarrow> depositInstruction tokenSwap authority sourceA sourceB intoA intoB poolTokenMint
              poolTokenAccount swapProgramId tokenProgramId tokenAmountA tokenAmountB
              minimumPoolTokenAmount
            = Inl WidthOverflowError)
   \<and> (\<forall>tokenSwap authority poolMint sourcePoolAccount fromA fromB userAccountA
        userAccountB adminFeeAccountA adminFeeAccountB swapProgramId tokenProgramId
        poolTokenAmount minimumTokenA minimumTokenB.
        \<not> (fits_unsigned 8 poolTokenAmount
             \<and> fits_unsigned 8 minimumTokenA
             \<and> fits_unsigned 8 minimumTokenB)
        \<longrightarrow> withdrawInstruction tokenSwap authority poolMint sourcePoolAccount fromA fromB userAccountA
              userAccountB adminFeeAccountA adminFeeAccountB swapProgramId tokenProgramId
              poolTokenAmount minimumTokenA minimumTokenB
            = Inl WidthOverflowError)
   \<and> (\<forall>farmAccount farmBaseAccount authority adminAccount adminFeeAccountPool
        tokenMintPool tokenAccountPool deltafiTokenMint deltafiTokenAccount farmProgramId
        tokenProgramId nonce fees.
        \<not> (fits_unsigned 1 nonce \<and> fees_fit fees)
        \<longrightarrow> createInitFarmInstruction farmAccount farmBaseAccount authority adminAccount
              adminFeeAccountPool tokenMintPool tokenAccountPool deltafiTokenMint
              deltafiTokenAccount farmProgramId tokenProgramId nonce fees
            = Inl WidthOverflowError)
   \<and> (\<forall>farmBaseAccount farmAccount authority adminFeeAccountDeltafi sourcePool userFarming
        farmPool deltafiTokenMint destDeltafi farmProgramId tokenProgramId tokenAmountPool.
        \<not> (fits_unsigned 8 tokenAmountPool)
        \<longrightarrow> farmDepositInstruction farmBaseAccount farmAccount authority adminFeeAccountDeltafi
              sourcePool userFarming farmPool deltafiTokenMint destDeltafi farmProgramId
              tokenProgramId tokenAmountPool
            = Inl WidthOverflowError)
   \<and> (\<forall>farmBaseAccount farmAccount authority adminFeeAccountDeltafi userPoolAccount
        userFarming tokenMintPool deltafiTokenMint deltafiTokenAccount farmProgramId
        tokenProgramId tokenAmountPool.
        \<not> (fits_unsigned 8 tokenAmountPool)
        \<longrightarrow> farmWithdrawInstruction farmBaseAccount farmAccount authority adminFeeAccountDeltafi
              userPoolAccount userFarming tokenMintPool deltafiTokenMint deltafiTokenAccount
              farmProgramId tokenProgramId tokenAmountPool
            = Inl WidthOverflowError)
   \<and> (\<forall>farmAccount authority adminAccount adminFeeAccountPool tokenMintPool
        tokenAccountPool deltafiTokenMint deltafiTokenAccount farmProgramId tokenProgramId
        nonce fees.
        \<not> (fits_unsigned 1 nonce \<and> fees_fit fees)
        \<longrightarrow> farmPrintPendingDeltafiInstruction farmAccount authority adminAccount adminFeeAccountPool
              tokenMintPool tokenAccountPool deltafiTokenMint deltafiTokenAccount
              farmProgramId tokenProgramId nonce fees
            = Inl WidthOverflowError)"
  by (intro conjI allI impI)
     (erule createAdminInitializeInstruction_overflow
        createRampAInstruction_overflow
        createSetNewFeesInstruction_overflow
        createSetNewRewardsInstruction_overflow
        createInitSwapInstruction_overflow
        createSwapInstruction_overflow
        createDepositInstruction_overflow
        createWithdrawInstruction_overflow
        createWithdrawOneInstruction_overflow
        instructions_createInitSwapInstruction_overflow
        swapInstruction_overflow
        depositInstruction_overflow
        withdrawInstruction_overflow
        createInitFarmInstruction_overflow
        farmDepositInstruction_overflow
        farmWithdrawInstruction_overflow
        farmPrintPendingDeltafiInstruction_overflow)+

theorem numeric_overflow_fails_at_encode_witness:
  "createAdminInitializeInstruction (PublicKey ''config'') (PublicKey ''adminKey'')
       (PublicKey ''deltafiMint'') 1000 DEFAULT_FEES
       (DEFAULT_REWARDS\<lparr>tradeRewardCap := 2 ^ 64\<rparr>) (PublicKey ''programId'')
       = Inl WidthOverflowError
   \<and> createRampAInstruction (PublicKey ''tokenSwap'') (PublicKey ''authority'')
       (PublicKey ''adminAccount'') 1000 (2 ^ 64) (PublicKey ''programId'')
       = Inl WidthOverflowError
   \<and> createSetNewFeesInstruction \<lparr>publicKey = PublicKey ''tokenSwapAccount''\<rparr>
       (PublicKey ''authority'') (PublicKey ''adminAccount'')
       (DEFAULT_FEES\<lparr>tradeFeeNumerator := - 1\<rparr>) (PublicKey ''programId'')
       = Inl WidthOverflowError
   \<and> createSetNewRewardsInstruction \<lparr>publicKey = PublicKey ''tokenSwapAccount''\<rparr>
       (PublicKey ''authority'') (PublicKey ''adminAccount'')
       (DEFAULT_REWARDS\<lparr>tradeRewardCap := 2 ^ 64\<rparr>) (PublicKey ''programId'')
       = Inl WidthOverflowError
   \<and> createInitSwapInstruction (PublicKey ''tokenSwap'') (PublicKey ''authority'')
       (PublicKey ''adminAccount'') (PublicKey ''adminFeeAccountA'')
       (PublicKey ''adminFeeAccountB'') (PublicKey ''tokenMintA'')
       (PublicKey ''tokenAccountA'') (PublicKey ''tokenMintB'')
       (PublicKey ''tokenAccountB'') (PublicKey ''poolTokenMint'')
       (PublicKey ''poolTokenAccount'') (PublicKey ''rewardTokenAccount'')
       (PublicKey ''rewardMint'') (PublicKey ''tokenProgramId'') 255 1000 DEFAULT_FEES
       DEFAULT_REWARDS 1000 1000 (2 ^ 64) (PublicKey ''programId'')
       = Inl WidthOverflowError
   \<and> createSwapInstruction (PublicKey ''tokenSwap'') (PublicKey ''authority'')
       (PublicKey ''userSource'') (PublicKey ''poolSource'') (PublicKey ''poolDestination'')
       (PublicKey ''userDestination'') (PublicKey ''adminDestination'')
       (PublicKey ''rewardDestination'') (PublicKey ''rewardMint'')
       (PublicKey ''tokenProgramId'') 1000 1000 (2 ^ 64) (PublicKey ''programId'')
       = Inl WidthOverflowError
   \<and> createDepositInstruction (PublicKey ''tokenSwap'') (PublicKey ''authority'')
       (PublicKey ''sourceA'') (PublicKey ''sourceB'') (PublicKey ''intoA'')
       (PublicKey ''intoB'') (PublicKey ''poolTokenMint'') (PublicKey ''poolTokenAccount'')
       (PublicKey ''tokenProgramId'') 1000 1000 (2 ^ 64) (PublicKey ''programId'')
       = Inl WidthOverflowError
   \<and> createWithdrawInstruction (PublicKey ''tokenSwap'') (PublicKey ''authority'')
       (PublicKey ''poolMint'') (PublicKey ''sourcePoolAccount'') (PublicKey ''fromA'')
       (PublicKey ''fromB'') (PublicKey ''userAccountA'') (PublicKey ''userAccountB'')
       (PublicKey ''adminFeeAccountA'') (PublicKey ''adminFeeAccountB'')
       (PublicKey ''tokenProgramId'') 1000 1000 (2 ^ 64) (PublicKey ''programId'')
       = Inl WidthOverflowError
   \<and> createWithdrawOneInstruction (PublicKey ''tokenSwap'') (PublicKey ''authority'')
       (PublicKey ''poolMint'') (PublicKey ''sourcePool'') (PublicKey ''base'')
       (PublicKey ''quote'') (PublicKey ''userDestination'')
       (PublicKey ''adminDestination'') (PublicKey ''tokenProgramId'') 1000 (2 ^ 64)
       (PublicKey ''programId'')
       = Inl WidthOverflowError
   \<and> instructions_createInitSwapInstruction
       \<lparr>publicKey = PublicKey ''tokenSwapAccount''\<rparr> (PublicKey ''authority'')
       (PublicKey ''adminAccount'') (PublicKey ''adminFeeAccountA'')
       (PublicKey ''adminFeeAccountB'') (PublicKey ''tokenMintA'')
       (PublicKey ''tokenAccountA'') (PublicKey ''tokenMintB'')
       (PublicKey ''tokenAccountB'') (PublicKey ''poolTokenMint'')
       (PublicKey ''poolTokenAccount'') (PublicKey ''swapProgramId'')
       (PublicKey ''tokenProgramId'') 255 1000
       (DEFAULT_FEES\<lparr>tradeFeeNumerator := - 1\<rparr>)
       = Inl WidthOverflowError
   \<and> swapInstruction (PublicKey ''tokenSwap'') (PublicKey ''authority'')
       (PublicKey ''userSource'') (PublicKey ''poolSource'') (PublicKey ''poolDestination'')
       (PublicKey ''userDestination'') (PublicKey ''adminDestination'')
       (PublicKey ''swapProgramId'') (PublicKey ''tokenProgramId'') 1000 (2 ^ 64)
       = Inl WidthOverflowError
   \<and> depositInstruction (PublicKey ''tokenSwap'') (PublicKey ''authority'')
       (PublicKey ''sourceA'') (PublicKey ''sourceB'') (PublicKey ''intoA'')
       (PublicKey ''intoB'') (PublicKey ''poolTokenMint'') (PublicKey ''poolTokenAccount'')
       (PublicKey ''swapProgramId'') (PublicKey ''tokenProgramId'') 1000 1000 (2 ^ 64)
       = Inl WidthOverflowError
   \<and> withdrawInstruction (PublicKey ''tokenSwap'') (PublicKey ''authority'')
       (PublicKey ''poolMint'') (PublicKey ''sourcePoolAccount'') (PublicKey ''fromA'')
       (PublicKey ''fromB'') (PublicKey ''userAccountA'') (PublicKey ''userAccountB'')
       (PublicKey ''adminFeeAccountA'') (PublicKey ''adminFeeAccountB'')
       (PublicKey ''swapProgramId'') (PublicKey ''tokenProgramId'') 1000 1000 (2 ^ 64)
       = Inl WidthOverflowError
   \<and> createInitFarmInstruction \<lparr>publicKey = PublicKey ''farmAccount''\<rparr>
       \<lparr>publicKey = PublicKey ''farmBaseAccount''\<rparr> (PublicKey ''authority'')
       (PublicKey ''adminAccount'') (PublicKey ''adminFeeAccountPool'')
       (PublicKey ''tokenMintPool'') (PublicKey ''tokenAccountPool'')
       (PublicKey ''deltafiTokenMint'') (PublicKey ''deltafiTokenAccount'')
       (PublicKey ''farmProgramId'') (PublicKey ''tokenProgramId'') 255
       (DEFAULT_FEES\<lparr>tradeFeeNumerator := - 1\<rparr>)
       = Inl WidthOverflowError
   \<and> farmDepositInstruction (PublicKey ''farmBaseAccount'') (PublicKey ''farmAccount'')
       (PublicKey ''authority'') (PublicKey ''adminFeeAccountDeltafi'')
       (PublicKey ''sourcePool'') (PublicKey ''userFarming'') (PublicKey ''farmPool'')
       (PublicKey ''deltafiTokenMint'') (PublicKey ''destDeltafi'')
       (PublicKey ''farmProgramId'') (PublicKey ''tokenProgramId'') (2 ^ 64)
       = Inl WidthOverflowError
   \<and> farmWithdrawInstruction (PublicKey ''farmBaseAccount'') (PublicKey ''farmAccount'')
       (PublicKey ''authority'') (PublicKey ''adminFeeAccountDeltafi'')
       (PublicKey ''userPoolAccount'') (PublicKey ''userFarming'')
       (PublicKey ''tokenMintPool'') (PublicKey ''deltafiTokenMint'')
       (PublicKey ''deltafiTokenAccount'') (PublicKey ''farmProgramId'')
       (PublicKey ''tokenProgramId'') (2 ^ 64)
       = Inl WidthOverflowError
   \<and> farmPrintPendingDeltafiInstruction \<lparr>publicKey = PublicKey ''farmAccount''\<rparr>
       (PublicKey ''authority'') (PublicKey ''adminAccount'')
       (PublicKey ''adminFeeAccountPool'') (PublicKey ''tokenMintPool'')
       (PublicKey ''tokenAccountPool'') (PublicKey ''deltafiTokenMint'')
       (PublicKey ''deltafiTokenAccount'') (PublicKey ''farmProgramId'')
       (PublicKey ''tokenProgramId'') 255
       (DEFAULT_FEES\<lparr>tradeFeeNumerator := - 1\<rparr>)
       = Inl WidthOverflowError"
  by (simp add: numeric_overflow_fails_at_encode fits_unsigned_def fees_fit_def rewards_fit_def
      DEFAULT_FEES_def DEFAULT_REWARDS_def DEFAULT_FEE_NUMERATOR_def DEFAULT_FEE_DENOMINATOR_def)

section \<open>Decoding what was encoded\<close>

text \<open>C4. Decoding the bytes of an encoded value should return the value field for
  field, each field in the representation it had. \<open>Fees.fromBuffer\<close> and
  \<open>Rewards.fromBuffer\<close> are declared to return \<open>IFees\<close> and \<open>IRewards\<close>, whose
  fields are \<open>NumberU64\<close> objects, but they return the layout's decoded object under a
  cast: for the default fees and the default rewards every field comes back as a plain
  number of the same value, so the result is not the value that was encoded.\<close>

theorem fromBuffer_returns_plain_numbers:
  "ebind (Fees_toBuffer DEFAULT_FEES) Fees_fromBuffer =
     Inr (Obj [(''adminTradeFeeNumerator'', Num 0),
               (''adminTradeFeeDenominator'', Num 1000),
               (''adminWithdrawFeeNumerator'', Num 0),
               (''adminWithdrawFeeDenominator'', Num 1000),
               (''tradeFeeNumerator'', Num 1),
               (''tradeFeeDenominator'', Num 4),
               (''withdrawFeeNumerator'', Num 0),
               (''withdrawFeeDenominator'', Num 1000)])
   \<and> IFees_object DEFAULT_FEES =
     Obj [(''adminTradeFeeNumerator'', U64 0),
          (''adminTradeFeeDenominator'', U64 1000),
          (''adminWithdrawFeeNumerator'', U64 0),
          (''adminWithdrawFeeDenominator'', U64 1000),
          (''tradeFeeNumerator'', U64 1),
          (''tradeFeeDenominator'', U64 4),
          (''withdrawFeeNumerator'', U64 0),
          (''withdrawFeeDenominator'', U64 1000)]
   \<and> ebind (Fees_toBuffer DEFAULT_FEES) Fees_fromBuffer \<noteq> Inr (IFees_object DEFAULT_FEES)
   \<and> ebind (Rewards_toBuffer DEFAULT_REWARDS) Rewards_fromBuffer =
     Inr (Obj [(''tradeRewardNumerator'', Num 1),
               (''tradeRewardDenominator'', Num 1000),
               (''tradeRewardCap'', Num 100)])
   \<and> IRewards_object DEFAULT_REWARDS =
     Obj [(''tradeRewardNumerator'', U64 1),
          (''tradeRewardDenominator'', U64 1000),
          (''tradeRewardCap'', U64 100)]
   \<and> ebind (Rewards_toBuffer DEFAULT_REWARDS) Rewards_fromBuffer
       \<noteq> Inr (IRewards_object DEFAULT_REWARDS)"
  by (simp add: Fees_toBuffer_def Fees_fromBuffer_def Rewards_toBuffer_def
      Rewards_fromBuffer_def Struct_toBuffer_def IFees_object_def IRewards_object_def
      DEFAULT_FEES_def DEFAULT_REWARDS_def DEFAULT_FEE_NUMERATOR_def
      DEFAULT_FEE_DENOMINATOR_def field_defs buffer_defs fits_unsigned_def
      le_value_le_bytes)

end
